theory Spec2Isabelle
  imports Main
begin

section \<open>Data model of the risk-configuration editor\<close>

text \<open>
  The repository holds two variants of one React component, \<open>RiskConfiguration\<close>:
  \<^item> \<^verbatim>\<open>src/components/AppSidebar.tsx\<close> (second document of the file): the variant that
    loads and saves through two REST calls (\<open>fetchConfigurations\<close>,
    \<open>saveConfigurations\<close>, \<open>saveRules\<close>);
  \<^item> \<^verbatim>\<open>src/pages/RiskConfiguration.tsx\<close>: the variant that saves to the browser's
    local storage (\<open>saveRules\<close>, here \<open>saveRulesLocal\<close>).
  \<open>getAvailableFields\<close>, \<open>addCondition\<close>, \<open>removeCondition\<close> and
  \<open>updateCondition\<close> are the same text in both files.

  JavaScript numbers are modelled as \<open>int\<close>: weights are whole percentages and ids are
  whole numbers, on which (below \<open>2^53\<close> in size) the arithmetic of the component
  (\<open>+\<close>, \<open>-\<close>, \<open>Math.min\<close>, \<open>===\<close>) is exact. Fractional weights,
  \<open>NaN\<close>, infinities and the rounding of doubles are outside the model. The theorems
  below therefore use a total only as the code does (copied, tested against 100) or in runs
  over small whole numbers; none of them compares a total with a sum taken in exact
  arithmetic or in another order.
\<close>

datatype status = incomplete | complete

text \<open>
  \<open>interface RiskCondition\<close>. The optional members \<open>configId?\<close> and
  \<open>riskFieldId?\<close> exist in the REST variant only; \<open>None\<close> is an absent member.
\<close>

record RiskCondition =
  c_id :: string
  c_field :: string
  c_operator :: string
  c_value :: string
  c_weight :: int
  c_dataType :: string
  c_configId :: "int option"
  c_riskFieldId :: "int option"

text \<open>\<open>interface ApiConfigItem\<close>: one item of the GET response.\<close>

record ApiConfigItem =
  ConfigId :: int
  RiskFieldId :: int
  Operator :: string
  Value :: string
  WeightPercentage :: int
  CreatedAt :: string
  IsEnabled :: bool
  FieldName :: string
  DisplayName :: string

text \<open>\<open>interface RiskCategory\<close>.\<close>

record RiskCategory =
  cat_id :: string
  cat_name :: string
  conditions :: "RiskCondition list"
  totalWeight :: int
  status :: status

text \<open>
  An entry of the constant \<open>fieldOptions\<close>; \<open>riskFieldId\<close> is present in the REST
  variant only.
\<close>

record FieldOption =
  fo_name :: string
  fo_dataType :: string
  fo_riskFieldId :: "int option"

text \<open>
  What the component shows and sends: a toast (\<open>variant\<close> is absent unless the call
  passes one), and an HTTP request handed to \<open>fetch\<close>.
\<close>

record toast =
  title :: string
  description :: string
  variant :: "string option"

record http_request =
  req_url :: string
  req_method :: string
  req_headers :: "(string \<times> string) list"
  req_body :: "string option"

text \<open>
  The component's state (\<open>useState\<close>: \<open>activeTab\<close>, \<open>loading\<close>,
  \<open>categories\<close>) together with what its handlers do to the outside: the toasts shown,
  the requests sent and the browser's \<open>localStorage\<close>, each in order of occurrence.
\<close>

record ui_state =
  activeTab :: string
  loading :: bool
  categories :: "RiskCategory list"
  toasts :: "toast list"
  requests :: "http_request list"
  localStorage :: "string \<rightharpoonup> string"

section \<open>JavaScript helpers\<close>

text \<open>
  \<open>Number.prototype.toString()\<close> on a whole number (below \<open>10^21\<close> in size, where
  JavaScript changes to exponent notation): its decimal digits, with a minus sign when
  negative.
\<close>

definition digitChar :: "nat \<Rightarrow> char" where
  "digitChar d = (''0123456789'' ! d)"

fun digitsOf :: "nat \<Rightarrow> string" where
  "digitsOf n = (if n < 10 then [digitChar n] else digitsOf (n div 10) @ [digitChar (n mod 10)])"

declare digitsOf.simps [simp del]

definition toString :: "int \<Rightarrow> string" where
  "toString i = (if i < 0 then CHR ''-'' # digitsOf (nat (- i)) else digitsOf (nat i))"

text \<open>\<open>Number(w) || 0\<close> on a number \<open>w\<close>: \<open>0\<close> is the only falsy whole number.\<close>

definition numOrZero :: "int \<Rightarrow> int" where
  "numOrZero w = (if w = 0 then 0 else w)"

text \<open>
  \<open>cs.reduce((sum, c) => sum + c.weight, 0)\<close> and
  \<open>cs.reduce((sum, c) => sum + (Number(c.weight) || 0), 0)\<close>: left folds from 0, as the
  code adds. On whole numbers below \<open>2^53\<close> they are the code's totals; on other doubles
  the code rounds after every addition and the fold here does not.
\<close>

definition sumWeight :: "RiskCondition list \<Rightarrow> int" where
  "sumWeight cs = foldl (\<lambda>sum c. sum + c_weight c) 0 cs"

definition sumNumWeight :: "RiskCondition list \<Rightarrow> int" where
  "sumNumWeight cs = foldl (\<lambda>sum c. sum + numOrZero (c_weight c)) 0 cs"

section \<open>Editing the conditions of the active category\<close>

text \<open>\<open>const activeCategory = categories.find((cat) => cat.id === activeTab)\<close>\<close>

definition activeCategory :: "ui_state \<Rightarrow> RiskCategory option" where
  "activeCategory s = find (\<lambda>cat. cat_id cat = activeTab s) (categories s)"

text \<open>
  \<open>addCondition\<close>. \<open>now\<close> is what \<open>Date.now()\<close> returns at the call.
\<close>

definition newCondition :: "int \<Rightarrow> RiskCondition" where
  "newCondition now =
     \<lparr>c_id = toString now, c_field = '''', c_operator = ''>'', c_value = '''',
      c_weight = 0, c_dataType = ''Number'', c_configId = None, c_riskFieldId = None\<rparr>"

definition addCondition :: "int \<Rightarrow> ui_state \<Rightarrow> ui_state" where
  "addCondition now s =
     (case activeCategory s of
        None \<Rightarrow> s
      | Some _ \<Rightarrow>
          s\<lparr>categories :=
               map (\<lambda>cat. if cat_id cat = activeTab s
                          then cat\<lparr>conditions := conditions cat @ [newCondition now]\<rparr>
                          else cat)
                   (categories s)\<rparr>)"

text \<open>\<open>removeCondition(conditionId)\<close>\<close>

definition removeCondition :: "string \<Rightarrow> ui_state \<Rightarrow> ui_state" where
  "removeCondition conditionId s =
     s\<lparr>categories :=
          map (\<lambda>cat. if cat_id cat = activeTab s
                     then cat\<lparr>conditions := filter (\<lambda>c. c_id c \<noteq> conditionId) (conditions cat),
                              totalWeight :=
                                sumWeight (filter (\<lambda>c. c_id c \<noteq> conditionId) (conditions cat)),
                              status :=
                                (if sumWeight (filter (\<lambda>c. c_id c \<noteq> conditionId) (conditions cat)) = 100
                                 then complete else incomplete)\<rparr>
                     else cat)
              (categories s)\<rparr>"

text \<open>
  \<open>updateCondition(conditionId, field, value)\<close>. The pair of \<open>field: keyof RiskCondition\<close>
  and \<open>value: any\<close> is one value of \<open>field_value\<close>: the member and a value of the
  member's declared type, as every caller in the component passes it (the weight input
  passes \<open>Number(e.target.value)\<close>, a number).
\<close>

datatype field_value =
    SetId string
  | SetField string
  | SetOperator string
  | SetValue string
  | SetWeight int
  | SetDataType string
  | SetConfigId int
  | SetRiskFieldId int

text \<open>\<open>{ ...c, [field]: value }\<close>\<close>

fun spreadWith :: "RiskCondition \<Rightarrow> field_value \<Rightarrow> RiskCondition" where
  "spreadWith c (SetId v) = c\<lparr>c_id := v\<rparr>"
| "spreadWith c (SetField v) = c\<lparr>c_field := v\<rparr>"
| "spreadWith c (SetOperator v) = c\<lparr>c_operator := v\<rparr>"
| "spreadWith c (SetValue v) = c\<lparr>c_value := v\<rparr>"
| "spreadWith c (SetWeight v) = c\<lparr>c_weight := v\<rparr>"
| "spreadWith c (SetDataType v) = c\<lparr>c_dataType := v\<rparr>"
| "spreadWith c (SetConfigId v) = c\<lparr>c_configId := Some v\<rparr>"
| "spreadWith c (SetRiskFieldId v) = c\<lparr>c_riskFieldId := Some v\<rparr>"

definition updateOne :: "RiskCategory \<Rightarrow> string \<Rightarrow> field_value \<Rightarrow> RiskCondition \<Rightarrow> RiskCondition" where
  "updateOne cat conditionId fv c =
     (if c_id c = conditionId then
        (case fv of
           SetWeight v \<Rightarrow>
             (let otherWeights =
                    sumNumWeight (filter (\<lambda>cond. c_id cond \<noteq> conditionId) (conditions cat));
                  newWeight = min v (100 - otherWeights)
              in spreadWith c (SetWeight newWeight))
         | _ \<Rightarrow> spreadWith c fv)
      else c)"

definition updateCondition :: "string \<Rightarrow> field_value \<Rightarrow> ui_state \<Rightarrow> ui_state" where
  "updateCondition conditionId fv s =
     s\<lparr>categories :=
          map (\<lambda>cat. if cat_id cat \<noteq> activeTab s then cat
                     else (let newConditions = map (updateOne cat conditionId fv) (conditions cat);
                               total = sumNumWeight newConditions
                           in cat\<lparr>conditions := newConditions,
                                   totalWeight := total,
                                   status := (if total = 100 then complete else incomplete)\<rparr>))
              (categories s)\<rparr>"

section \<open>The field table and property reads\<close>

text \<open>
  \<open>fieldOptions\<close> is an object literal whose five members are arrays of field
  descriptions. An object is modelled as the list of its own members in insertion order, so
  \<open>Object.values(fieldOptions).flat()\<close> is the concatenation of the arrays.
\<close>

definition fieldOption :: "string \<Rightarrow> string \<Rightarrow> int option \<Rightarrow> FieldOption" where
  "fieldOption n d r = \<lparr>fo_name = n, fo_dataType = d, fo_riskFieldId = r\<rparr>"

text \<open>The table of the REST variant (AppSidebar.tsx, lines 128-168).\<close>

definition fieldOptions :: "(string \<times> FieldOption list) list" where
  "fieldOptions =
     [(''financial'',
         [fieldOption ''Loan Amount'' ''Number'' (Some 1),
          fieldOption ''Outstanding Balance'' ''Number'' (Some 2),
          fieldOption ''Days Past Due (DPD)'' ''Number'' (Some 3),
          fieldOption ''Repayment History Score'' ''Number'' (Some 4),
          fieldOption ''Credit Score (Experian/Equifax)'' ''Number'' (Some 5),
          fieldOption ''Credit Utilisation Ratio'' ''Percentage'' (Some 6),
          fieldOption ''Previous Defaults (count)'' ''Number'' (Some 7),
          fieldOption ''Cost-to-Collect Estimate'' ''Number'' (Some 8)]),
      (''identity'',
         [fieldOption ''Name Match %'' ''Percentage'' (Some 9),
          fieldOption ''Address Match %'' ''Percentage'' (Some 10),
          fieldOption ''DOB Match'' ''Boolean'' (Some 11),
          fieldOption ''National Insurance Number Match'' ''Boolean'' (Some 12),
          fieldOption ''Identity Match Score (Weighted)'' ''Number'' (Some 13)]),
      (''property'',
         [fieldOption ''Years at Current Address'' ''Number'' (Some 14),
          fieldOption ''Property Owned (Yes/No)'' ''Boolean'' (Some 15),
          fieldOption ''Property Value'' ''Number'' (Some 16),
          fieldOption ''Home Ownership Status'' ''Text'' (Some 17),
          fieldOption ''Vehicle Owned (Yes/No)'' ''Boolean'' (Some 18),
          fieldOption ''Stability Score'' ''Number'' (Some 19)]),
      (''contactability'',
         [fieldOption ''Contact Numbers Available (count)'' ''Number'' (Some 20),
          fieldOption ''Validated Phone Number (Yes/No)'' ''Boolean'' (Some 21),
          fieldOption ''Mobile Number Verified'' ''Boolean'' (Some 22),
          fieldOption ''Number of Contactable Channels'' ''Number'' (Some 23),
          fieldOption ''Agent Recovery Success Rate'' ''Percentage'' (Some 24)]),
      (''risk'',
         [fieldOption ''Criminal Record Flag (Yes/No)'' ''Boolean'' (Some 25),
          fieldOption ''History of Defaults/CCJs'' ''Boolean'' (Some 26),
          fieldOption ''Recent Missed Payments'' ''Number'' (Some 27),
          fieldOption ''Same Name Cases Flag'' ''Boolean'' (Some 28),
          fieldOption ''Loan Application Address Risk'' ''Text'' (Some 29)])]"


text \<open>
  Reading \<open>obj[key]\<close> with an arbitrary string key. A member of the literal is found
  first (the keys of both tables are pairwise different); otherwise the read goes to
  \<open>Object.prototype\<close>, whose members (a function, or for \<open>__proto__\<close> the prototype
  object itself) are neither \<open>undefined\<close> nor arrays; every other key reads
  \<open>undefined\<close>.
\<close>

datatype 'a property_read = OwnMember 'a | PrototypeMember | UndefinedMember

definition objectPrototypeKeys :: "string list" where
  "objectPrototypeKeys =
     [''constructor'', ''__proto__'', ''hasOwnProperty'', ''isPrototypeOf'',
      ''propertyIsEnumerable'', ''toLocaleString'', ''toString'', ''valueOf'',
      ''__defineGetter__'', ''__defineSetter__'', ''__lookupGetter__'', ''__lookupSetter__'']"

definition readMember :: "(string \<times> 'a) list \<Rightarrow> string \<Rightarrow> 'a property_read" where
  "readMember obj key =
     (case map_of obj key of
        Some v \<Rightarrow> OwnMember v
      | None \<Rightarrow> if key \<in> set objectPrototypeKeys then PrototypeMember else UndefinedMember)"

text \<open>\<open>Object.values(fieldOptions).flat()\<close>\<close>

definition allFieldOptions :: "(string \<times> FieldOption list) list \<Rightarrow> FieldOption list" where
  "allFieldOptions fo = concat (map snd fo)"

text \<open>\<open>Object.values(fieldOptions).flat().find(f => f.name === n)\<close>\<close>

definition findFieldInfo :: "(string \<times> FieldOption list) list \<Rightarrow> string \<Rightarrow> FieldOption option" where
  "findFieldInfo fo n = find (\<lambda>f. fo_name f = n) (allFieldOptions fo)"

text \<open>
  \<open>Object.values(fieldOptions[id] || [])\<close>: the array itself for a member of the literal;
  no value for \<open>undefined\<close>, and none for a member of \<open>Object.prototype\<close>, which has no
  enumerable member of its own.
\<close>

definition categoryFieldOptions :: "(string \<times> FieldOption list) list \<Rightarrow> string \<Rightarrow> FieldOption list" where
  "categoryFieldOptions fo key =
     (case readMember fo key of OwnMember opts \<Rightarrow> opts | PrototypeMember \<Rightarrow> [] | UndefinedMember \<Rightarrow> [])"

section \<open>getAvailableFields\<close>



section \<open>Loading: fetchConfigurations\<close>

text \<open>
  The outcome of \<open>await fetch(url)\<close> followed by \<open>await response.json()\<close>: either one
  of the two rejects (\<open>GetFailed\<close>), or the body parses to a list of items.
  \<open>response.ok\<close> is not read.
\<close>

datatype get_result = GetFailed | GetJson "ApiConfigItem list"

definition getConfigRequest :: http_request where
  "getConfigRequest =
     \<lparr>req_url = ''https://marstonx-defaulterrankingapp.azurewebsites.net/api/GetConfig'',
      req_method = ''GET'', req_headers = [], req_body = None\<rparr>"

definition loadErrorToast :: toast where
  "loadErrorToast =
     \<lparr>title = ''Error'', description = ''Failed to load configurations'',
      variant = Some ''destructive''\<rparr>"

text \<open>
  The filter of \<open>fetchConfigurations\<close>: the first field description with the item's
  \<open>DisplayName\<close> in the whole table, and whether the category's array \<open>includes\<close> it.
  \<open>includes\<close> compares object references; the entries of \<open>fieldOptions\<close> are pairwise
  different records (lemma \<open>fieldOptions_distinct\<close>), so on this table equal references
  and equal records are the same.
\<close>

definition belongsTo :: "(string \<times> FieldOption list) list \<Rightarrow> RiskCategory \<Rightarrow> ApiConfigItem \<Rightarrow> bool" where
  "belongsTo fo category item =
     (case findFieldInfo fo (DisplayName item) of
        None \<Rightarrow> False
      | Some fieldInfo \<Rightarrow> fieldInfo \<in> set (categoryFieldOptions fo (cat_id category)))"

text \<open>\<open>x?.dataType || "Number"\<close>: the empty string is falsy.\<close>

definition dataTypeOf :: "(string \<times> FieldOption list) list \<Rightarrow> string \<Rightarrow> string" where
  "dataTypeOf fo n =
     (case findFieldInfo fo n of
        None \<Rightarrow> ''Number''
      | Some f \<Rightarrow> if fo_dataType f = [] then ''Number'' else fo_dataType f)"

definition toCondition :: "(string \<times> FieldOption list) list \<Rightarrow> ApiConfigItem \<Rightarrow> RiskCondition" where
  "toCondition fo item =
     \<lparr>c_id = toString (ConfigId item),
      c_field = DisplayName item,
      c_operator = Operator item,
      c_value = Value item,
      c_weight = WeightPercentage item,
      c_dataType = dataTypeOf fo (DisplayName item),
      c_configId = Some (ConfigId item),
      c_riskFieldId = Some (RiskFieldId item)\<rparr>"

definition transformCategory ::
  "(string \<times> FieldOption list) list \<Rightarrow> ApiConfigItem list \<Rightarrow> RiskCategory \<Rightarrow> RiskCategory" where
  "transformCategory fo data category =
     (let categoryConditions = map (toCondition fo) (filter (belongsTo fo category) data);
          total = sumWeight categoryConditions
      in category\<lparr>conditions := categoryConditions,
                   totalWeight := total,
                   status := (if total = 100 then complete else incomplete)\<rparr>)"

definition fetchConfigurations :: "get_result \<Rightarrow> ui_state \<Rightarrow> ui_state" where
  "fetchConfigurations res s =
     (let s1 = s\<lparr>loading := True\<rparr>;
          s2 = s1\<lparr>requests := requests s1 @ [getConfigRequest]\<rparr>;
          s3 = (case res of
                  GetJson data \<Rightarrow>
                    s2\<lparr>categories := map (transformCategory fieldOptions data) (categories s2)\<rparr>
                | GetFailed \<Rightarrow> s2\<lparr>toasts := toasts s2 @ [loadErrorToast]\<rparr>)
      in s3\<lparr>loading := False\<rparr>)"

section \<open>Saving: saveConfigurations and saveRules\<close>

text \<open>
  A JSON document, and \<open>JSON.stringify\<close> as a parameter \<open>stringify\<close> of the functions
  that call it: the component hands it a document and sends or stores the text it returns.
\<close>

datatype json = JNumber int | JString string | JArray "json list" | JObject "(string \<times> json) list"

text \<open>\<open>x || y\<close> on an optional number: \<open>undefined\<close> and \<open>0\<close> are falsy.\<close>

definition orElse :: "int option \<Rightarrow> int \<Rightarrow> int" where
  "orElse x y = (case x of None \<Rightarrow> y | Some n \<Rightarrow> if n = 0 then y else n)"

text \<open>
  \<open>condition.riskFieldId || Object.values(fieldOptions).flat().find(f => f.name ===
  condition.field)?.riskFieldId || 1\<close>
\<close>

definition riskFieldIdOf :: "(string \<times> FieldOption list) list \<Rightarrow> RiskCondition \<Rightarrow> int" where
  "riskFieldIdOf fo condition =
     orElse (c_riskFieldId condition)
       (orElse (case findFieldInfo fo (c_field condition) of
                  None \<Rightarrow> None
                | Some f \<Rightarrow> fo_riskFieldId f) 1)"

definition toApiItem :: "(string \<times> FieldOption list) list \<Rightarrow> RiskCondition \<Rightarrow> json" where
  "toApiItem fo condition =
     JObject [(''RiskFieldId'', JNumber (riskFieldIdOf fo condition)),
              (''Operator'', JString (c_operator condition)),
              (''Value'', JString (c_value condition)),
              (''WeightPercentage'', JNumber (c_weight condition))]"

text \<open>\<open>categories.flatMap(category => category.conditions.map(...))\<close>\<close>

definition allConditions :: "(string \<times> FieldOption list) list \<Rightarrow> RiskCategory list \<Rightarrow> json list" where
  "allConditions fo cats = concat (map (\<lambda>category. map (toApiItem fo) (conditions category)) cats)"

text \<open>
  The outcome of the POST: \<open>fetch\<close> rejects, or it resolves to a response whose \<open>ok\<close>
  flag is given.
\<close>

datatype post_result = PostFailed | PostResponse bool

definition saveConfigRequest :: "string \<Rightarrow> http_request" where
  "saveConfigRequest b =
     \<lparr>req_url = ''https://marstonx-defaulterrankingapp.azurewebsites.net/api/SaveConfig'',
      req_method = ''POST'',
      req_headers = [(''Content-Type'', ''application/json'')],
      req_body = Some b\<rparr>"

definition saveSuccessToast :: toast where
  "saveSuccessToast =
     \<lparr>title = ''Success'', description = ''Risk configurations updated successfully.'',
      variant = None\<rparr>"

definition saveErrorToast :: toast where
  "saveErrorToast =
     \<lparr>title = ''Error'', description = ''Failed to save configurations'',
      variant = Some ''destructive''\<rparr>"

definition saveConfigurations :: "(json \<Rightarrow> string) \<Rightarrow> post_result \<Rightarrow> ui_state \<Rightarrow> ui_state" where
  "saveConfigurations stringify res s =
     (let s1 = s\<lparr>loading := True\<rparr>;
          s2 = s1\<lparr>requests := requests s1 @
                  [saveConfigRequest (stringify (JArray (allConditions fieldOptions (categories s1))))]\<rparr>;
          s3 = (case res of
                  PostFailed \<Rightarrow> s2\<lparr>toasts := toasts s2 @ [saveErrorToast]\<rparr>
                | PostResponse ok \<Rightarrow>
                    if ok then s2\<lparr>toasts := toasts s2 @ [saveSuccessToast]\<rparr>
                    else s2\<lparr>toasts := toasts s2 @ [saveErrorToast]\<rparr>)
      in s3\<lparr>loading := False\<rparr>)"

definition invalidConfigurationToast :: toast where
  "invalidConfigurationToast =
     \<lparr>title = ''Invalid Configuration'',
      description = ''All categories with conditions must have weights totaling 100%'',
      variant = Some ''destructive''\<rparr>"

text \<open>\<open>saveRules\<close> of the REST variant.\<close>

definition saveRules :: "(json \<Rightarrow> string) \<Rightarrow> post_result \<Rightarrow> ui_state \<Rightarrow> ui_state" where
  "saveRules stringify res s =
     (let categoriesWithConditions = filter (\<lambda>cat. length (conditions cat) > 0) (categories s);
          incompleteCategories = filter (\<lambda>cat. totalWeight cat \<noteq> 100) categoriesWithConditions
      in if length incompleteCategories > 0
         then s\<lparr>toasts := toasts s @ [invalidConfigurationToast]\<rparr>
         else saveConfigurations stringify res s)"

text \<open>
  \<open>saveRules\<close> of the local-storage variant. \<open>JSON.stringify(categories)\<close> is handed the
  categories as they are: each object with its members in creation order, an absent
  optional member left out (the local-storage variant never sets one).
\<close>

definition statusName :: "status \<Rightarrow> string" where
  "statusName st = (case st of incomplete \<Rightarrow> ''incomplete'' | complete \<Rightarrow> ''complete'')"

definition optionalMember :: "string \<Rightarrow> int option \<Rightarrow> (string \<times> json) list" where
  "optionalMember k x = (case x of None \<Rightarrow> [] | Some n \<Rightarrow> [(k, JNumber n)])"

definition conditionJson :: "RiskCondition \<Rightarrow> json" where
  "conditionJson c =
     JObject ([(''id'', JString (c_id c)),
               (''field'', JString (c_field c)),
               (''operator'', JString (c_operator c)),
               (''value'', JString (c_value c)),
               (''weight'', JNumber (c_weight c)),
               (''dataType'', JString (c_dataType c))]
              @ optionalMember ''configId'' (c_configId c)
              @ optionalMember ''riskFieldId'' (c_riskFieldId c))"

definition categoryJson :: "RiskCategory \<Rightarrow> json" where
  "categoryJson cat =
     JObject [(''id'', JString (cat_id cat)),
              (''name'', JString (cat_name cat)),
              (''conditions'', JArray (map conditionJson (conditions cat))),
              (''totalWeight'', JNumber (totalWeight cat)),
              (''status'', JString (statusName (status cat)))]"

definition rulesSavedToast :: toast where
  "rulesSavedToast =
     \<lparr>title = ''Rules Saved'',
      description = ''Scoring Configuration has been saved successfully. Dashboard will reflect these changes.'',
      variant = None\<rparr>"

definition saveRulesLocal :: "(json \<Rightarrow> string) \<Rightarrow> ui_state \<Rightarrow> ui_state" where
  "saveRulesLocal stringify s =
     (let s1 = s\<lparr>localStorage :=
                  (localStorage s)(''riskCategories'' \<mapsto> stringify (JArray (map categoryJson (categories s))))\<rparr>
      in s1\<lparr>toasts := toasts s1 @ [rulesSavedToast]\<rparr>)"

section \<open>Initial states and runs of the component\<close>

definition emptyCategory :: "string \<Rightarrow> string \<Rightarrow> RiskCategory" where
  "emptyCategory i n =
     \<lparr>cat_id = i, cat_name = n, conditions = [], totalWeight = 0, status = incomplete\<rparr>"

text \<open>\<open>useState<RiskCategory[]>([...])\<close> of the REST variant.\<close>

definition initialCategories :: "RiskCategory list" where
  "initialCategories =
     [emptyCategory ''financial'' ''Financial & Credit'',
      emptyCategory ''identity'' ''Identity & Verification'',
      emptyCategory ''property'' ''Property & Stability'',
      emptyCategory ''contactability'' ''Contactability & Behaviour'',
      emptyCategory ''risk'' ''Risk Factors'']"

text \<open>\<open>useState<RiskCategory[]>([...])\<close> of the local-storage variant.\<close>

definition initialCategoriesLocal :: "RiskCategory list" where
  "initialCategoriesLocal =
     [\<lparr>cat_id = ''financial'', cat_name = ''Financial & Credit'',
       conditions =
         [\<lparr>c_id = ''1'', c_field = ''Loan Amount'', c_operator = ''>'', c_value = ''5000'',
           c_weight = 40, c_dataType = ''Number'', c_configId = None, c_riskFieldId = None\<rparr>,
          \<lparr>c_id = ''2'', c_field = ''Outstanding Balance'', c_operator = ''='', c_value = ''1500'',
           c_weight = 15, c_dataType = ''Number'', c_configId = None, c_riskFieldId = None\<rparr>],
       totalWeight = 55, status = incomplete\<rparr>,
      emptyCategory ''identity'' ''Identity & Verification'',
      emptyCategory ''property'' ''Property & Stability'',
      emptyCategory ''contactability'' ''Contactability & Behaviour'',
      emptyCategory ''risk'' ''Risk Factors'']"

definition initialState :: ui_state where
  "initialState =
     \<lparr>activeTab = ''financial'', loading = False, categories = initialCategories,
      toasts = [], requests = [], localStorage = Map.empty\<rparr>"

definition initialStateLocal :: ui_state where
  "initialStateLocal =
     \<lparr>activeTab = ''financial'', loading = False, categories = initialCategoriesLocal,
      toasts = [], requests = [], localStorage = Map.empty\<rparr>"

text \<open>
  The handlers that change \<open>activeTab\<close> or \<open>categories\<close>, as operations: the tab buttons
  (\<open>setActiveTab\<close>), the three editing handlers, and \<open>fetchConfigurations\<close> with the
  outcome of its GET. A run applies a list of them in order, each to the state the previous
  one left.
\<close>

datatype operation =
    SetActiveTab string
  | AddCondition int
  | RemoveCondition string
  | UpdateCondition string field_value
  | FetchConfigurations get_result

fun perform :: "operation \<Rightarrow> ui_state \<Rightarrow> ui_state" where
  "perform (SetActiveTab tab) s = s\<lparr>activeTab := tab\<rparr>"
| "perform (AddCondition now) s = addCondition now s"
| "perform (RemoveCondition conditionId) s = removeCondition conditionId s"
| "perform (UpdateCondition conditionId fv) s = updateCondition conditionId fv s"
| "perform (FetchConfigurations res) s = fetchConfigurations res s"

fun run :: "operation list \<Rightarrow> ui_state \<Rightarrow> ui_state" where
  "run [] s = s"
| "run (op # ops) s = run ops (perform op s)"

section \<open>Properties stated about the model\<close>

text \<open>The status of a category says whether its total is exactly 100.\<close>

definition statusMatches :: "RiskCategory \<Rightarrow> bool" where
  "statusMatches cat = ((status cat = complete) = (totalWeight cat = 100))"

section \<open>Example runs\<close>

text \<open>
  Two conditions added to the same category within one millisecond (\<open>Date.now()\<close>
  returns the same number to both calls, so they carry the same id), then a weight of 30
  typed into the weight input of either row.
\<close>

definition addedTwiceAtOnce :: ui_state where
  "addedTwiceAtOnce =
     run [AddCondition 1700000000000, AddCondition 1700000000000,
          UpdateCondition ''1700000000000'' (SetWeight 30)] initialState"

text \<open>A state whose active tab names no category.\<close>

definition unknownTabOpen :: ui_state where
  "unknownTabOpen = run [SetActiveTab ''archive''] initialState"

text \<open>
  A GET response of four items: two fields of the first category, one of the second, and
  one whose \<open>DisplayName\<close> is not in the table; and the same response with every
  \<open>IsEnabled\<close> flag inverted.
\<close>

definition exampleResponse :: "ApiConfigItem list" where
  "exampleResponse =
     [\<lparr>ConfigId = 7, RiskFieldId = 1, Operator = ''>'', Value = ''5000'',
       WeightPercentage = 60, CreatedAt = ''2025-01-01'', IsEnabled = False,
       FieldName = ''LoanAmount'', DisplayName = ''Loan Amount''\<rparr>,
      \<lparr>ConfigId = 8, RiskFieldId = 11, Operator = ''='', Value = ''true'',
       WeightPercentage = 100, CreatedAt = ''2025-01-01'', IsEnabled = True,
       FieldName = ''DobMatch'', DisplayName = ''DOB Match''\<rparr>,
      \<lparr>ConfigId = 9, RiskFieldId = 99, Operator = ''>'', Value = ''44'',
       WeightPercentage = 40, CreatedAt = ''2025-01-01'', IsEnabled = True,
       FieldName = ''ShoeSize'', DisplayName = ''Shoe Size''\<rparr>,
      \<lparr>ConfigId = 10, RiskFieldId = 6, Operator = ''<'', Value = ''30'',
       WeightPercentage = 40, CreatedAt = ''2025-01-01'', IsEnabled = True,
       FieldName = ''CreditUtilisation'', DisplayName = ''Credit Utilisation Ratio''\<rparr>]"

definition exampleResponseInverted :: "ApiConfigItem list" where
  "exampleResponseInverted = map (\<lambda>item. item\<lparr>IsEnabled := \<not> IsEnabled item\<rparr>) exampleResponse"

text \<open>
  A printer of JSON documents whose strings need no escaping. The examples pass it where
  the component calls \<open>JSON.stringify\<close>; the theorems hold for every \<open>stringify\<close>.
\<close>

fun joinWith :: "string \<Rightarrow> string list \<Rightarrow> string" where
  "joinWith sep [] = []"
| "joinWith sep [x] = x"
| "joinWith sep (x # y # ys) = x @ sep @ joinWith sep (y # ys)"

fun plainJson :: "json \<Rightarrow> string" where
  "plainJson (JNumber n) = toString n"
| "plainJson (JString t) = [CHR 0x22] @ t @ [CHR 0x22]"
| "plainJson (JArray xs) = ''['' @ joinWith '','' (map plainJson xs) @ '']''"
| "plainJson (JObject kvs) =
     ''{'' @ joinWith '','' (map (\<lambda>kv. [CHR 0x22] @ fst kv @ [CHR 0x22] @ '':'' @ plainJson (snd kv)) kvs)
       @ ''}''"

text \<open>The REST variant after the example response has been loaded.\<close>

definition exampleLoaded :: ui_state where
  "exampleLoaded = run [FetchConfigurations (GetJson exampleResponse)] initialState"

text \<open>
  A GET response in which two fields of the first category carry the same \<open>ConfigId\<close>,
  and the REST variant after it has been loaded.
\<close>

definition duplicateIdResponse :: "ApiConfigItem list" where
  "duplicateIdResponse =
     [\<lparr>ConfigId = 7, RiskFieldId = 1, Operator = ''>'', Value = ''5000'',
       WeightPercentage = 30, CreatedAt = ''2025-01-01'', IsEnabled = True,
       FieldName = ''LoanAmount'', DisplayName = ''Loan Amount''\<rparr>,
      \<lparr>ConfigId = 7, RiskFieldId = 2, Operator = ''>'', Value = ''100'',
       WeightPercentage = 30, CreatedAt = ''2025-01-01'', IsEnabled = True,
       FieldName = ''OutstandingBalance'', DisplayName = ''Outstanding Balance''\<rparr>]"

definition duplicateIdLoaded :: ui_state where
  "duplicateIdLoaded = run [FetchConfigurations (GetJson duplicateIdResponse)] initialState"


section \<open>Evaluation\<close>

lemmas edit_defs =
  addCondition_def removeCondition_def updateCondition_def updateOne_def activeCategory_def
  newCondition_def sumWeight_def sumNumWeight_def numOrZero_def
  toString_def digitsOf.simps digitChar_def

lemmas initial_defs =
  initialState_def initialStateLocal_def initialCategories_def initialCategoriesLocal_def
  emptyCategory_def

section \<open>The editing handlers, category by category\<close>

lemma find_None_map_id:
  "find P xs = None \<Longrightarrow> map (\<lambda>x. if P x then f x else x) xs = xs"
  by (induction xs) (auto split: if_splits)

lemma categories_addCondition:
  "categories (addCondition now s) =
     map (\<lambda>cat. if cat_id cat = activeTab s
                then cat\<lparr>conditions := conditions cat @ [newCondition now]\<rparr> else cat)
         (categories s)"
  by (simp add: addCondition_def activeCategory_def find_None_map_id split: option.split)

lemma categories_fetchConfigurations:
  "categories (fetchConfigurations res s) =
     (case res of GetFailed \<Rightarrow> categories s
      | GetJson data \<Rightarrow> map (transformCategory fieldOptions data) (categories s))"
  by (simp add: fetchConfigurations_def Let_def split: get_result.split)

section \<open>Status and total weight\<close>

lemma statusMatches_recomputed:
  "statusMatches (cat\<lparr>conditions := cs, totalWeight := t,
                       status := (if t = 100 then complete else incomplete)\<rparr>)"
  by (simp add: statusMatches_def)

lemma statusMatches_addCondition:
  assumes "\<forall>cat\<in>set (categories s). statusMatches cat"
  shows "\<forall>cat\<in>set (categories (addCondition now s)). statusMatches cat"
  using assms by (auto simp: categories_addCondition statusMatches_def)

lemma statusMatches_removeCondition:
  assumes "\<forall>cat\<in>set (categories s). statusMatches cat"
  shows "\<forall>cat\<in>set (categories (removeCondition conditionId s)). statusMatches cat"
  using assms by (auto simp: removeCondition_def statusMatches_recomputed)

lemma statusMatches_updateCondition:
  assumes "\<forall>cat\<in>set (categories s). statusMatches cat"
  shows "\<forall>cat\<in>set (categories (updateCondition conditionId fv s)). statusMatches cat"
  using assms by (auto simp: updateCondition_def statusMatches_recomputed Let_def)

lemma statusMatches_transformCategory: "statusMatches (transformCategory fo data category)"
  by (simp add: transformCategory_def statusMatches_recomputed Let_def)

lemma statusMatches_fetchConfigurations:
  assumes "\<forall>cat\<in>set (categories s). statusMatches cat"
  shows "\<forall>cat\<in>set (categories (fetchConfigurations res s)). statusMatches cat"
  using assms
  by (auto simp: categories_fetchConfigurations statusMatches_transformCategory split: get_result.split)

lemma statusMatches_perform:
  assumes "\<forall>cat\<in>set (categories s). statusMatches cat"
  shows "\<forall>cat\<in>set (categories (perform op s)). statusMatches cat"
proof (cases op)
  case (SetActiveTab tab)
  with assms show ?thesis by simp
next
  case (AddCondition now)
  with assms show ?thesis using statusMatches_addCondition by simp
next
  case (RemoveCondition conditionId)
  with assms show ?thesis using statusMatches_removeCondition by simp
next
  case (UpdateCondition conditionId fv)
  with assms show ?thesis using statusMatches_updateCondition by simp
next
  case (FetchConfigurations res)
  with assms show ?thesis using statusMatches_fetchConfigurations by simp
qed

lemma statusMatches_run:
  assumes "\<forall>cat\<in>set (categories s). statusMatches cat"
  shows "\<forall>cat\<in>set (categories (run ops s)). statusMatches cat"
  using assms
proof (induction ops arbitrary: s)
  case Nil
  then show ?case by simp
next
  case (Cons op ops)
  from Cons.prems have "\<forall>cat\<in>set (categories (perform op s)). statusMatches cat"
    by (rule statusMatches_perform)
  then show ?case using Cons.IH by simp
qed

lemma statusMatches_initialState: "\<forall>cat\<in>set (categories initialState). statusMatches cat"
  by (simp add: initial_defs statusMatches_def)

lemma statusMatches_initialStateLocal: "\<forall>cat\<in>set (categories initialStateLocal). statusMatches cat"
  by (simp add: initial_defs statusMatches_def)

text \<open>
  Claim C1. In every state the component reaches from its initial state (of either
  variant) by tab changes, \<open>addCondition\<close>, \<open>removeCondition\<close>, \<open>updateCondition\<close> and
  \<open>fetchConfigurations\<close> (successful or failed), every category has status
  \<open>complete\<close> exactly when its \<open>totalWeight\<close> is 100. The lemmas above show more: each
  handler keeps the property from any state that has it, and a category rewritten by
  \<open>removeCondition\<close>, \<open>updateCondition\<close> or a successful fetch has it whatever came before.
\<close>

theorem status_complete_iff_total_100:
  assumes "s0 = initialState \<or> s0 = initialStateLocal"
      and "cat \<in> set (categories (run ops s0))"
  shows "(status cat = complete) = (totalWeight cat = 100)"
proof -
  from assms(1) have "\<forall>c\<in>set (categories s0). statusMatches c"
    using statusMatches_initialState statusMatches_initialStateLocal by blast
  then have "\<forall>c\<in>set (categories (run ops s0)). statusMatches c"
    by (rule statusMatches_run)
  with assms(2) have "statusMatches cat" by blast
  then show ?thesis by (simp add: statusMatches_def)
qed

lemma run_add_update_example:
  "categories (run [AddCondition 1700000000000,
                    UpdateCondition ''1700000000000'' (SetWeight 100)] initialState) =
     [\<lparr>cat_id = ''financial'', cat_name = ''Financial & Credit'',
       conditions =
         [\<lparr>c_id = ''1700000000000'', c_field = '''', c_operator = ''>'', c_value = '''',
           c_weight = 100, c_dataType = ''Number'', c_configId = None, c_riskFieldId = None\<rparr>],
       totalWeight = 100, status = complete\<rparr>,
      emptyCategory ''identity'' ''Identity & Verification'',
      emptyCategory ''property'' ''Property & Stability'',
      emptyCategory ''contactability'' ''Contactability & Behaviour'',
      emptyCategory ''risk'' ''Risk Factors'']"
  by (simp add: edit_defs initial_defs Let_def)

theorem status_complete_iff_total_100_witness:
  "(initialState = initialState \<or> initialState = initialStateLocal) \<and>
   hd (categories (run [AddCondition 1700000000000,
                        UpdateCondition ''1700000000000'' (SetWeight 100)] initialState))
     \<in> set (categories (run [AddCondition 1700000000000,
                        UpdateCondition ''1700000000000'' (SetWeight 100)] initialState)) \<and>
   ((status (hd (categories (run [AddCondition 1700000000000,
                        UpdateCondition ''1700000000000'' (SetWeight 100)] initialState))) = complete) =
    (totalWeight (hd (categories (run [AddCondition 1700000000000,
                        UpdateCondition ''1700000000000'' (SetWeight 100)] initialState))) = 100)) \<and>
   totalWeight (hd (categories (run [AddCondition 1700000000000,
                        UpdateCondition ''1700000000000'' (SetWeight 100)] initialState))) = 100"
proof -
  have start: "initialState = initialState \<or> initialState = initialStateLocal"
    by simp
  have mem: "hd (categories (run [AddCondition 1700000000000,
                        UpdateCondition ''1700000000000'' (SetWeight 100)] initialState))
     \<in> set (categories (run [AddCondition 1700000000000,
                        UpdateCondition ''1700000000000'' (SetWeight 100)] initialState))"
    unfolding run_add_update_example by simp
  have total: "totalWeight (hd (categories (run [AddCondition 1700000000000,
                        UpdateCondition ''1700000000000'' (SetWeight 100)] initialState))) = 100"
    unfolding run_add_update_example by simp
  note iff = status_complete_iff_total_100 [OF start mem]
  from start mem iff total show ?thesis by (intro conjI)
qed

section \<open>addCondition\<close>

lemma addCondition_other_fields:
  "activeTab (addCondition now s) = activeTab s"
  "loading (addCondition now s) = loading s"
  "toasts (addCondition now s) = toasts s"
  "requests (addCondition now s) = requests s"
  "localStorage (addCondition now s) = localStorage s"
  by (simp_all add: addCondition_def split: option.split)

lemma addCondition_no_match:
  assumes "\<forall>cat\<in>set (categories s). cat_id cat \<noteq> activeTab s"
  shows "addCondition now s = s"
proof -
  from assms have "find (\<lambda>cat. cat_id cat = activeTab s) (categories s) = None"
    by (simp add: find_None_iff)
  then show ?thesis by (simp add: addCondition_def activeCategory_def)
qed

text \<open>
  Claim C9. \<open>addCondition\<close> keeps the number and order of the categories. A category whose
  id is the active tab gets exactly one condition more, at the end of its list: empty
  field, operator \<open>>\<close>, empty value, weight 0, data type \<open>Number\<close>, the id being the
  clock's reading; its earlier conditions, \<open>totalWeight\<close>, \<open>status\<close>, id and name stay.
  Every other category stays as it is, and so do the active tab, the loading flag, the
  toasts, the requests and the local storage. When no category has the active tab's id the
  state is unchanged.
\<close>

theorem addCondition_appends_one_condition:
  "length (categories (addCondition now s)) = length (categories s)
   \<and> (\<forall>i<length (categories s).
         (cat_id (categories s ! i) = activeTab s \<longrightarrow>
            conditions (categories (addCondition now s) ! i) =
              conditions (categories s ! i) @
                [\<lparr>c_id = toString now, c_field = '''', c_operator = ''>'', c_value = '''',
                  c_weight = 0, c_dataType = ''Number'', c_configId = None, c_riskFieldId = None\<rparr>]
            \<and> totalWeight (categories (addCondition now s) ! i) = totalWeight (categories s ! i)
            \<and> status (categories (addCondition now s) ! i) = status (categories s ! i)
            \<and> cat_id (categories (addCondition now s) ! i) = cat_id (categories s ! i)
            \<and> cat_name (categories (addCondition now s) ! i) = cat_name (categories s ! i))
         \<and> (cat_id (categories s ! i) \<noteq> activeTab s \<longrightarrow>
              categories (addCondition now s) ! i = categories s ! i))
   \<and> activeTab (addCondition now s) = activeTab s
   \<and> loading (addCondition now s) = loading s
   \<and> toasts (addCondition now s) = toasts s
   \<and> requests (addCondition now s) = requests s
   \<and> localStorage (addCondition now s) = localStorage s
   \<and> ((\<forall>cat\<in>set (categories s). cat_id cat \<noteq> activeTab s) \<longrightarrow> addCondition now s = s)"
proof (intro conjI allI impI)
  show "length (categories (addCondition now s)) = length (categories s)"
    by (simp add: categories_addCondition)
next
  fix i assume i: "i < length (categories s)" and act: "cat_id (categories s ! i) = activeTab s"
  then have eq: "categories (addCondition now s) ! i =
      (categories s ! i)\<lparr>conditions := conditions (categories s ! i) @ [newCondition now]\<rparr>"
    by (simp add: categories_addCondition)
  show "conditions (categories (addCondition now s) ! i) =
          conditions (categories s ! i) @
            [\<lparr>c_id = toString now, c_field = '''', c_operator = ''>'', c_value = '''',
              c_weight = 0, c_dataType = ''Number'', c_configId = None, c_riskFieldId = None\<rparr>]"
    by (simp add: eq newCondition_def)
  show "totalWeight (categories (addCondition now s) ! i) = totalWeight (categories s ! i)"
    by (simp add: eq)
  show "status (categories (addCondition now s) ! i) = status (categories s ! i)"
    by (simp add: eq)
  show "cat_id (categories (addCondition now s) ! i) = cat_id (categories s ! i)"
    by (simp add: eq)
  show "cat_name (categories (addCondition now s) ! i) = cat_name (categories s ! i)"
    by (simp add: eq)
next
  fix i assume "i < length (categories s)" and "cat_id (categories s ! i) \<noteq> activeTab s"
  then show "categories (addCondition now s) ! i = categories s ! i"
    by (simp add: categories_addCondition)
next
  assume "\<forall>cat\<in>set (categories s). cat_id cat \<noteq> activeTab s"
  then show "addCondition now s = s" by (rule addCondition_no_match)
qed (simp_all add: addCondition_other_fields)

theorem addCondition_appends_one_condition_witness:
  "0 < length (categories initialState) \<and>
   cat_id (categories initialState ! 0) = activeTab initialState \<and>
   conditions (categories (addCondition 1700000000000 initialState) ! 0) =
     conditions (categories initialState ! 0) @
       [\<lparr>c_id = toString 1700000000000, c_field = '''', c_operator = ''>'', c_value = '''',
         c_weight = 0, c_dataType = ''Number'', c_configId = None, c_riskFieldId = None\<rparr>] \<and>
   totalWeight (categories (addCondition 1700000000000 initialState) ! 0) =
     totalWeight (categories initialState ! 0) \<and>
   1 < length (categories initialState) \<and>
   cat_id (categories initialState ! 1) \<noteq> activeTab initialState \<and>
   categories (addCondition 1700000000000 initialState) ! 1 = categories initialState ! 1 \<and>
   list_all (\<lambda>cat. cat_id cat \<noteq> activeTab unknownTabOpen) (categories unknownTabOpen) \<and>
   addCondition 1700000000000 unknownTabOpen = unknownTabOpen \<and>
   toString 1700000000000 = ''1700000000000''"
proof -
  have h0: "0 < length (categories initialState)"
    and a0: "cat_id (categories initialState ! 0) = activeTab initialState"
    and h1: "1 < length (categories initialState)"
    and a1: "cat_id (categories initialState ! 1) \<noteq> activeTab initialState"
    by (simp_all add: initial_defs)
  have none: "\<forall>cat\<in>set (categories unknownTabOpen). cat_id cat \<noteq> activeTab unknownTabOpen"
    by (simp add: unknownTabOpen_def initial_defs)
  have str: "toString 1700000000000 = ''1700000000000''"
    by (simp add: toString_def digitsOf.simps digitChar_def)
  note t = addCondition_appends_one_condition [of 1700000000000 initialState]
  note u = addCondition_appends_one_condition [of 1700000000000 unknownTabOpen]
  from t h0 a0 have c0:
    "conditions (categories (addCondition 1700000000000 initialState) ! 0) =
       conditions (categories initialState ! 0) @
         [\<lparr>c_id = toString 1700000000000, c_field = '''', c_operator = ''>'', c_value = '''',
           c_weight = 0, c_dataType = ''Number'', c_configId = None, c_riskFieldId = None\<rparr>]"
    and w0: "totalWeight (categories (addCondition 1700000000000 initialState) ! 0) =
       totalWeight (categories initialState ! 0)"
    by blast+
  from t h1 a1 have c1:
    "categories (addCondition 1700000000000 initialState) ! 1 = categories initialState ! 1"
    by blast
  from u none have c2: "addCondition 1700000000000 unknownTabOpen = unknownTabOpen"
    by blast
  from none have none': "list_all (\<lambda>cat. cat_id cat \<noteq> activeTab unknownTabOpen) (categories unknownTabOpen)"
    by (simp only: list_all_iff)
  from h0 a0 c0 w0 h1 a1 c1 none' c2 str show ?thesis by (intro conjI)
qed

section \<open>The field table\<close>

lemma fieldOptions_names_distinct: "distinct (map fo_name (allFieldOptions fieldOptions))"
  by (simp add: allFieldOptions_def fieldOptions_def fieldOption_def)

lemma fieldOptions_distinct: "distinct (allFieldOptions fieldOptions)"
  using fieldOptions_names_distinct by (rule distinct_map [THEN iffD1, THEN conjunct1])

lemma fieldOptions_dataType_nonempty:
  "\<forall>f\<in>set (allFieldOptions fieldOptions). fo_dataType f \<noteq> []"
  by (simp add: allFieldOptions_def fieldOptions_def fieldOption_def)

lemma categoryFieldOptions_subset:
  "set (categoryFieldOptions fo key) \<subseteq> set (allFieldOptions fo)"
proof (cases "map_of fo key")
  case None
  then show ?thesis by (simp add: categoryFieldOptions_def readMember_def)
next
  case (Some opts)
  then have "(key, opts) \<in> set fo" by (rule map_of_SomeD)
  then have "set opts \<subseteq> set (allFieldOptions fo)"
    by (force simp: allFieldOptions_def)
  with Some show ?thesis by (simp add: categoryFieldOptions_def readMember_def)
qed

lemma find_Some_D: "find P xs = Some x \<Longrightarrow> x \<in> set xs \<and> P x"
  by (induction xs) (auto split: if_splits)

lemma findFieldInfo_unique:
  assumes "distinct (map fo_name (allFieldOptions fo))"
      and "g \<in> set (allFieldOptions fo)"
  shows "findFieldInfo fo (fo_name g) = Some g"
proof -
  from assms(2) have "find (\<lambda>f. fo_name f = fo_name g) (allFieldOptions fo) \<noteq> None"
    by (auto simp: find_None_iff)
  then obtain f where f: "find (\<lambda>f. fo_name f = fo_name g) (allFieldOptions fo) = Some f"
    by blast
  then have "f \<in> set (allFieldOptions fo)" and "fo_name f = fo_name g"
    using find_Some_D by fastforce+
  moreover from assms(1) have "inj_on fo_name (set (allFieldOptions fo))"
    by (simp add: distinct_map)
  ultimately have "f = g" using assms(2) by (simp add: inj_on_def)
  with f show ?thesis by (simp add: findFieldInfo_def)
qed

lemma findFieldInfo_unknown:
  assumes "n \<notin> fo_name ` set (allFieldOptions fo)"
  shows "findFieldInfo fo n = None"
  using assms by (auto simp: findFieldInfo_def find_None_iff)

lemma belongsTo_iff:
  assumes "distinct (map fo_name (allFieldOptions fo))"
  shows "belongsTo fo category item =
           (DisplayName item \<in> fo_name ` set (categoryFieldOptions fo (cat_id category)))"
proof
  assume "belongsTo fo category item"
  then obtain f where f: "findFieldInfo fo (DisplayName item) = Some f"
    and mem: "f \<in> set (categoryFieldOptions fo (cat_id category))"
    by (auto simp: belongsTo_def split: option.splits)
  from f have "fo_name f = DisplayName item"
    using find_Some_D by (fastforce simp: findFieldInfo_def)
  with mem show "DisplayName item \<in> fo_name ` set (categoryFieldOptions fo (cat_id category))"
    by force
next
  assume "DisplayName item \<in> fo_name ` set (categoryFieldOptions fo (cat_id category))"
  then obtain g where g: "g \<in> set (categoryFieldOptions fo (cat_id category))"
    and n: "DisplayName item = fo_name g"
    by blast
  from g have "g \<in> set (allFieldOptions fo)"
    using categoryFieldOptions_subset by blast
  with assms have "findFieldInfo fo (fo_name g) = Some g"
    by (rule findFieldInfo_unique)
  with g n show "belongsTo fo category item"
    by (simp add: belongsTo_def)
qed

lemma dataTypeOf_known:
  assumes "f \<in> set (allFieldOptions fieldOptions)"
  shows "dataTypeOf fieldOptions (fo_name f) = fo_dataType f"
proof -
  have "findFieldInfo fieldOptions (fo_name f) = Some f"
    using fieldOptions_names_distinct assms by (rule findFieldInfo_unique)
  moreover have "fo_dataType f \<noteq> []"
    using fieldOptions_dataType_nonempty assms by blast
  ultimately show ?thesis by (simp add: dataTypeOf_def)
qed

lemma dataTypeOf_unknown:
  assumes "n \<notin> fo_name ` set (allFieldOptions fieldOptions)"
  shows "dataTypeOf fieldOptions n = ''Number''"
  using findFieldInfo_unknown [OF assms] by (simp add: dataTypeOf_def)

section \<open>fetchConfigurations\<close>

lemma conditions_transformCategory:
  "conditions (transformCategory fieldOptions data category) =
     map (toCondition fieldOptions)
       (filter (\<lambda>item. DisplayName item \<in>
                  fo_name ` set (categoryFieldOptions fieldOptions (cat_id category))) data)"
proof -
  have "belongsTo fieldOptions category =
        (\<lambda>item. DisplayName item \<in>
                  fo_name ` set (categoryFieldOptions fieldOptions (cat_id category)))"
    by (rule ext) (rule belongsTo_iff [OF fieldOptions_names_distinct])
  then show ?thesis by (simp add: transformCategory_def Let_def)
qed

lemma transformCategory_ids:
  "cat_id (transformCategory fo data category) = cat_id category"
  "cat_name (transformCategory fo data category) = cat_name category"
  by (simp_all add: transformCategory_def Let_def)

lemma toCondition_IsEnabled: "toCondition fo (item\<lparr>IsEnabled := b\<rparr>) = toCondition fo item"
  by (simp add: toCondition_def)

lemma belongsTo_IsEnabled: "belongsTo fo category (item\<lparr>IsEnabled := b\<rparr>) = belongsTo fo category item"
  by (simp add: belongsTo_def)

lemma transformCategory_IsEnabled:
  "transformCategory fo (map (\<lambda>item. item\<lparr>IsEnabled := b\<rparr>) data) category =
   transformCategory fo data category"
proof -
  have "map (toCondition fo) (filter (belongsTo fo category) (map (\<lambda>item. item\<lparr>IsEnabled := b\<rparr>) data)) =
        map (toCondition fo) (filter (belongsTo fo category) data)"
    by (induction data) (simp_all add: toCondition_IsEnabled belongsTo_IsEnabled)
  then show ?thesis by (simp add: transformCategory_def)
qed

lemma fetchConfigurations_IsEnabled:
  assumes "map (\<lambda>item. item\<lparr>IsEnabled := False\<rparr>) data' = map (\<lambda>item. item\<lparr>IsEnabled := False\<rparr>) data"
  shows "fetchConfigurations (GetJson data') s = fetchConfigurations (GetJson data) s"
proof -
  have "transformCategory fieldOptions data' = transformCategory fieldOptions data"
  proof
    fix category
    have "transformCategory fieldOptions data' category =
          transformCategory fieldOptions (map (\<lambda>item. item\<lparr>IsEnabled := False\<rparr>) data') category"
      by (simp only: transformCategory_IsEnabled)
    also have "\<dots> = transformCategory fieldOptions (map (\<lambda>item. item\<lparr>IsEnabled := False\<rparr>) data) category"
      by (simp only: assms)
    also have "\<dots> = transformCategory fieldOptions data category"
      by (simp only: transformCategory_IsEnabled)
    finally show "transformCategory fieldOptions data' category =
          transformCategory fieldOptions data category" .
  qed
  then show ?thesis by (simp add: fetchConfigurations_def)
qed

text \<open>
  Claim C6. After a successful GET the categories are the same in number, order, id and
  name, and the conditions of each are exactly the response items whose \<open>DisplayName\<close> is
  the name of a field in the category's own \<open>fieldOptions\<close> list, in response order, each
  turned into a condition: id the decimal text of \<open>ConfigId\<close>, field \<open>DisplayName\<close>,
  operator, value, weight \<open>WeightPercentage\<close>, \<open>configId\<close> and \<open>riskFieldId\<close> copied,
  and the data type that of the field of that name in the table (\<open>Number\<close> for a name the
  table does not have). No condition is made from an item whose \<open>DisplayName\<close> the table
  does not have, and two responses that differ in \<open>IsEnabled\<close> flags only give the same
  state.
\<close>

theorem fetch_success_replaces_conditions:
  "length (categories (fetchConfigurations (GetJson data) s)) = length (categories s)
   \<and> (\<forall>i<length (categories s).
         conditions (categories (fetchConfigurations (GetJson data) s) ! i) =
           map (\<lambda>item. \<lparr>c_id = toString (ConfigId item),
                         c_field = DisplayName item,
                         c_operator = Operator item,
                         c_value = Value item,
                         c_weight = WeightPercentage item,
                         c_dataType = dataTypeOf fieldOptions (DisplayName item),
                         c_configId = Some (ConfigId item),
                         c_riskFieldId = Some (RiskFieldId item)\<rparr>)
               (filter (\<lambda>item. DisplayName item \<in>
                          fo_name ` set (categoryFieldOptions fieldOptions (cat_id (categories s ! i))))
                       data)
         \<and> cat_id (categories (fetchConfigurations (GetJson data) s) ! i) = cat_id (categories s ! i)
         \<and> cat_name (categories (fetchConfigurations (GetJson data) s) ! i) = cat_name (categories s ! i))
   \<and> (\<forall>f\<in>set (allFieldOptions fieldOptions). dataTypeOf fieldOptions (fo_name f) = fo_dataType f)
   \<and> (\<forall>n. n \<notin> fo_name ` set (allFieldOptions fieldOptions) \<longrightarrow>
            dataTypeOf fieldOptions n = ''Number'')
   \<and> (\<forall>cat\<in>set (categories (fetchConfigurations (GetJson data) s)).
         \<forall>c\<in>set (conditions cat). c_field c \<in> fo_name ` set (allFieldOptions fieldOptions))
   \<and> (map (\<lambda>item. item\<lparr>IsEnabled := False\<rparr>) data' = map (\<lambda>item. item\<lparr>IsEnabled := False\<rparr>) data \<longrightarrow>
        fetchConfigurations (GetJson data') s = fetchConfigurations (GetJson data) s)"
proof (intro conjI allI impI ballI)
  show "length (categories (fetchConfigurations (GetJson data) s)) = length (categories s)"
    by (simp add: categories_fetchConfigurations)
next
  fix i assume i: "i < length (categories s)"
  then have eq: "categories (fetchConfigurations (GetJson data) s) ! i =
                 transformCategory fieldOptions data (categories s ! i)"
    by (simp add: categories_fetchConfigurations)
  have "toCondition fieldOptions =
        (\<lambda>item. \<lparr>c_id = toString (ConfigId item),
                         c_field = DisplayName item,
                         c_operator = Operator item,
                         c_value = Value item,
                         c_weight = WeightPercentage item,
                         c_dataType = dataTypeOf fieldOptions (DisplayName item),
                         c_configId = Some (ConfigId item),
                         c_riskFieldId = Some (RiskFieldId item)\<rparr>)"
    by (rule ext) (simp add: toCondition_def)
  then show "conditions (categories (fetchConfigurations (GetJson data) s) ! i) =
           map (\<lambda>item. \<lparr>c_id = toString (ConfigId item),
                         c_field = DisplayName item,
                         c_operator = Operator item,
                         c_value = Value item,
                         c_weight = WeightPercentage item,
                         c_dataType = dataTypeOf fieldOptions (DisplayName item),
                         c_configId = Some (ConfigId item),
                         c_riskFieldId = Some (RiskFieldId item)\<rparr>)
               (filter (\<lambda>item. DisplayName item \<in>
                          fo_name ` set (categoryFieldOptions fieldOptions (cat_id (categories s ! i))))
                       data)"
    by (simp only: eq conditions_transformCategory)
  show "cat_id (categories (fetchConfigurations (GetJson data) s) ! i) = cat_id (categories s ! i)"
    by (simp only: eq transformCategory_ids)
  show "cat_name (categories (fetchConfigurations (GetJson data) s) ! i) = cat_name (categories s ! i)"
    by (simp only: eq transformCategory_ids)
next
  fix f assume "f \<in> set (allFieldOptions fieldOptions)"
  then show "dataTypeOf fieldOptions (fo_name f) = fo_dataType f" by (rule dataTypeOf_known)
next
  fix n assume "n \<notin> fo_name ` set (allFieldOptions fieldOptions)"
  then show "dataTypeOf fieldOptions n = ''Number''" by (rule dataTypeOf_unknown)
next
  fix cat c
  assume "cat \<in> set (categories (fetchConfigurations (GetJson data) s))"
    and c: "c \<in> set (conditions cat)"
  then obtain category where cat: "cat = transformCategory fieldOptions data category"
    by (auto simp: categories_fetchConfigurations)
  from c obtain item where "c = toCondition fieldOptions item"
    and "DisplayName item \<in> fo_name ` set (categoryFieldOptions fieldOptions (cat_id category))"
    unfolding cat conditions_transformCategory by auto
  then show "c_field c \<in> fo_name ` set (allFieldOptions fieldOptions)"
    using categoryFieldOptions_subset [of fieldOptions "cat_id category"]
    by (auto simp: toCondition_def)
next
  assume "map (\<lambda>item. item\<lparr>IsEnabled := False\<rparr>) data' = map (\<lambda>item. item\<lparr>IsEnabled := False\<rparr>) data"
  then show "fetchConfigurations (GetJson data') s = fetchConfigurations (GetJson data) s"
    by (rule fetchConfigurations_IsEnabled)
qed

lemmas fetch_defs =
  fetchConfigurations_def transformCategory_def toCondition_def belongsTo_def dataTypeOf_def
  findFieldInfo_def categoryFieldOptions_def readMember_def allFieldOptions_def
  fieldOptions_def fieldOption_def objectPrototypeKeys_def sumWeight_def
  toString_def digitsOf.simps digitChar_def

lemma exampleResponse_fetched:
  "categories (fetchConfigurations (GetJson exampleResponse) initialState) =
     [\<lparr>cat_id = ''financial'', cat_name = ''Financial & Credit'',
       conditions =
         [\<lparr>c_id = ''7'', c_field = ''Loan Amount'', c_operator = ''>'', c_value = ''5000'',
           c_weight = 60, c_dataType = ''Number'', c_configId = Some 7, c_riskFieldId = Some 1\<rparr>,
          \<lparr>c_id = ''10'', c_field = ''Credit Utilisation Ratio'', c_operator = ''<'', c_value = ''30'',
           c_weight = 40, c_dataType = ''Percentage'', c_configId = Some 10, c_riskFieldId = Some 6\<rparr>],
       totalWeight = 100, status = complete\<rparr>,
      \<lparr>cat_id = ''identity'', cat_name = ''Identity & Verification'',
       conditions =
         [\<lparr>c_id = ''8'', c_field = ''DOB Match'', c_operator = ''='', c_value = ''true'',
           c_weight = 100, c_dataType = ''Boolean'', c_configId = Some 8, c_riskFieldId = Some 11\<rparr>],
       totalWeight = 100, status = complete\<rparr>,
      emptyCategory ''property'' ''Property & Stability'',
      emptyCategory ''contactability'' ''Contactability & Behaviour'',
      emptyCategory ''risk'' ''Risk Factors'']"
  by (simp add: fetch_defs exampleResponse_def initial_defs Let_def)

theorem fetch_success_replaces_conditions_witness:
  "0 < length (categories initialState) \<and>
   conditions (categories (fetchConfigurations (GetJson exampleResponse) initialState) ! 0) =
     map (\<lambda>item. \<lparr>c_id = toString (ConfigId item),
                   c_field = DisplayName item,
                   c_operator = Operator item,
                   c_value = Value item,
                   c_weight = WeightPercentage item,
                   c_dataType = dataTypeOf fieldOptions (DisplayName item),
                   c_configId = Some (ConfigId item),
                   c_riskFieldId = Some (RiskFieldId item)\<rparr>)
         (filter (\<lambda>item. DisplayName item \<in>
                    fo_name ` set (categoryFieldOptions fieldOptions (cat_id (categories initialState ! 0))))
                 exampleResponse) \<and>
   map c_id (conditions (categories (fetchConfigurations (GetJson exampleResponse) initialState) ! 0)) =
     [''7'', ''10''] \<and>
   fieldOption ''DOB Match'' ''Boolean'' (Some 11) \<in> set (allFieldOptions fieldOptions) \<and>
   dataTypeOf fieldOptions (fo_name (fieldOption ''DOB Match'' ''Boolean'' (Some 11))) =
     fo_dataType (fieldOption ''DOB Match'' ''Boolean'' (Some 11)) \<and>
   ''Shoe Size'' \<notin> fo_name ` set (allFieldOptions fieldOptions) \<and>
   dataTypeOf fieldOptions ''Shoe Size'' = ''Number'' \<and>
   categories (fetchConfigurations (GetJson exampleResponse) initialState) ! 1
     \<in> set (categories (fetchConfigurations (GetJson exampleResponse) initialState)) \<and>
   hd (conditions (categories (fetchConfigurations (GetJson exampleResponse) initialState) ! 1))
     \<in> set (conditions (categories (fetchConfigurations (GetJson exampleResponse) initialState) ! 1)) \<and>
   c_field (hd (conditions (categories (fetchConfigurations (GetJson exampleResponse) initialState) ! 1)))
     \<in> fo_name ` set (allFieldOptions fieldOptions) \<and>
   map (\<lambda>item. item\<lparr>IsEnabled := False\<rparr>) exampleResponseInverted =
     map (\<lambda>item. item\<lparr>IsEnabled := False\<rparr>) exampleResponse \<and>
   exampleResponseInverted \<noteq> exampleResponse \<and>
   fetchConfigurations (GetJson exampleResponseInverted) initialState =
     fetchConfigurations (GetJson exampleResponse) initialState"
proof -
  note t = fetch_success_replaces_conditions
             [of exampleResponse initialState exampleResponseInverted]
  have h0: "0 < length (categories initialState)"
    by (simp add: initial_defs)
  from t h0 have c0:
    "conditions (categories (fetchConfigurations (GetJson exampleResponse) initialState) ! 0) =
     map (\<lambda>item. \<lparr>c_id = toString (ConfigId item),
                   c_field = DisplayName item,
                   c_operator = Operator item,
                   c_value = Value item,
                   c_weight = WeightPercentage item,
                   c_dataType = dataTypeOf fieldOptions (DisplayName item),
                   c_configId = Some (ConfigId item),
                   c_riskFieldId = Some (RiskFieldId item)\<rparr>)
         (filter (\<lambda>item. DisplayName item \<in>
                    fo_name ` set (categoryFieldOptions fieldOptions (cat_id (categories initialState ! 0))))
                 exampleResponse)"
    by blast
  have ids: "map c_id (conditions (categories (fetchConfigurations (GetJson exampleResponse)
               initialState) ! 0)) = [''7'', ''10'']"
    unfolding exampleResponse_fetched by simp
  have known: "fieldOption ''DOB Match'' ''Boolean'' (Some 11) \<in> set (allFieldOptions fieldOptions)"
    by (simp add: allFieldOptions_def fieldOptions_def fieldOption_def)
  from t known have c1:
    "dataTypeOf fieldOptions (fo_name (fieldOption ''DOB Match'' ''Boolean'' (Some 11))) =
     fo_dataType (fieldOption ''DOB Match'' ''Boolean'' (Some 11))"
    by blast
  have unknown: "''Shoe Size'' \<notin> fo_name ` set (allFieldOptions fieldOptions)"
    by (simp add: allFieldOptions_def fieldOptions_def fieldOption_def)
  from t unknown have c2: "dataTypeOf fieldOptions ''Shoe Size'' = ''Number''"
    by blast
  have m1: "categories (fetchConfigurations (GetJson exampleResponse) initialState) ! 1
     \<in> set (categories (fetchConfigurations (GetJson exampleResponse) initialState))"
    unfolding exampleResponse_fetched by simp
  have m2: "hd (conditions (categories (fetchConfigurations (GetJson exampleResponse) initialState) ! 1))
     \<in> set (conditions (categories (fetchConfigurations (GetJson exampleResponse) initialState) ! 1))"
    unfolding exampleResponse_fetched by simp
  from t m1 m2 have c3:
    "c_field (hd (conditions (categories (fetchConfigurations (GetJson exampleResponse) initialState) ! 1)))
     \<in> fo_name ` set (allFieldOptions fieldOptions)"
    by blast
  have same: "map (\<lambda>item. item\<lparr>IsEnabled := False\<rparr>) exampleResponseInverted =
     map (\<lambda>item. item\<lparr>IsEnabled := False\<rparr>) exampleResponse"
    by (simp add: exampleResponseInverted_def exampleResponse_def)
  have differ: "exampleResponseInverted \<noteq> exampleResponse"
    by (simp add: exampleResponseInverted_def exampleResponse_def)
  from t same have c4:
    "fetchConfigurations (GetJson exampleResponseInverted) initialState =
     fetchConfigurations (GetJson exampleResponse) initialState"
    by blast
  from h0 c0 ids known c1 unknown c2 m1 m2 c3 same differ c4 show ?thesis
    by (intro conjI)
qed

section \<open>Weight capping\<close>

lemma addedTwiceAtOnce_categories:
  "categories addedTwiceAtOnce =
     [\<lparr>cat_id = ''financial'', cat_name = ''Financial & Credit'',
       conditions =
         [\<lparr>c_id = ''1700000000000'', c_field = '''', c_operator = ''>'', c_value = '''',
           c_weight = 30, c_dataType = ''Number'', c_configId = None, c_riskFieldId = None\<rparr>,
          \<lparr>c_id = ''1700000000000'', c_field = '''', c_operator = ''>'', c_value = '''',
           c_weight = 30, c_dataType = ''Number'', c_configId = None, c_riskFieldId = None\<rparr>],
       totalWeight = 60, status = incomplete\<rparr>,
      emptyCategory ''identity'' ''Identity & Verification'',
      emptyCategory ''property'' ''Property & Stability'',
      emptyCategory ''contactability'' ''Contactability & Behaviour'',
      emptyCategory ''risk'' ''Risk Factors'']"
  by (simp add: addedTwiceAtOnce_def edit_defs initial_defs Let_def)

lemma addedTwiceAtOnce_activeTab: "activeTab addedTwiceAtOnce = ''financial''"
  by (simp add: addedTwiceAtOnce_def edit_defs initial_defs Let_def)

lemma duplicateIdLoaded_categories:
  "categories duplicateIdLoaded =
     [\<lparr>cat_id = ''financial'', cat_name = ''Financial & Credit'',
       conditions =
         [\<lparr>c_id = ''7'', c_field = ''Loan Amount'', c_operator = ''>'', c_value = ''5000'',
           c_weight = 30, c_dataType = ''Number'', c_configId = Some 7, c_riskFieldId = Some 1\<rparr>,
          \<lparr>c_id = ''7'', c_field = ''Outstanding Balance'', c_operator = ''>'', c_value = ''100'',
           c_weight = 30, c_dataType = ''Number'', c_configId = Some 7, c_riskFieldId = Some 2\<rparr>],
       totalWeight = 60, status = incomplete\<rparr>,
      emptyCategory ''identity'' ''Identity & Verification'',
      emptyCategory ''property'' ''Property & Stability'',
      emptyCategory ''contactability'' ''Contactability & Behaviour'',
      emptyCategory ''risk'' ''Risk Factors'']"
  by (simp add: duplicateIdLoaded_def fetch_defs duplicateIdResponse_def initial_defs Let_def)

lemma duplicateIdLoaded_activeTab: "activeTab duplicateIdLoaded = ''financial''"
  by (simp add: duplicateIdLoaded_def fetchConfigurations_def initialState_def Let_def)

text \<open>
  Claim C3 says that \<open>updateCondition\<close> on the weight field stores
  \<open>min(v, 100 - s)\<close>, \<open>s\<close> being the sum of the other conditions' weights of the
  category, so that the category's total is at most 100 afterwards; the code's comment on
  that line reads "cap at remaining %". The code does not keep to it when two conditions of
  the active category have one id: it takes \<open>s\<close> over the conditions of another id only
  and stores the result in every condition of the id. Two runs show it, one with two
  conditions added within one millisecond, one with a response that carries one
  \<open>ConfigId\<close> twice. In both the two conditions weigh 30 each, the request is 100, the
  claim gives \<open>min(100, 100 - 30) = 70\<close> and a total of 100; the code stores 100 in both
  and the total is 200. All numbers of the two runs are small whole numbers, on which the
  code's arithmetic is exact.
\<close>

theorem updateCondition_duplicate_ids_exceed_cap:
  "cat_id (categories addedTwiceAtOnce ! 0) = activeTab addedTwiceAtOnce \<and>
   map c_id (conditions (categories addedTwiceAtOnce ! 0)) = [''1700000000000'', ''1700000000000''] \<and>
   map c_weight (conditions (categories addedTwiceAtOnce ! 0)) = [30, 30] \<and>
   map c_weight (conditions (categories
       (updateCondition ''1700000000000'' (SetWeight 100) addedTwiceAtOnce) ! 0)) = [100, 100] \<and>
   totalWeight (categories (updateCondition ''1700000000000'' (SetWeight 100) addedTwiceAtOnce) ! 0) = 200 \<and>
   cat_id (categories duplicateIdLoaded ! 0) = activeTab duplicateIdLoaded \<and>
   map c_id (conditions (categories duplicateIdLoaded ! 0)) = [''7'', ''7''] \<and>
   map c_weight (conditions (categories duplicateIdLoaded ! 0)) = [30, 30] \<and>
   map c_weight (conditions (categories
       (updateCondition ''7'' (SetWeight 100) duplicateIdLoaded) ! 0)) = [100, 100] \<and>
   totalWeight (categories (updateCondition ''7'' (SetWeight 100) duplicateIdLoaded) ! 0) = 200"
proof -
  have a1: "cat_id (categories addedTwiceAtOnce ! 0) = activeTab addedTwiceAtOnce"
    by (simp add: addedTwiceAtOnce_categories addedTwiceAtOnce_activeTab)
  have a2: "map c_id (conditions (categories addedTwiceAtOnce ! 0)) =
              [''1700000000000'', ''1700000000000'']"
    by (simp add: addedTwiceAtOnce_categories)
  have a3: "map c_weight (conditions (categories addedTwiceAtOnce ! 0)) = [30, 30]"
    by (simp add: addedTwiceAtOnce_categories)
  have a4: "map c_weight (conditions (categories
       (updateCondition ''1700000000000'' (SetWeight 100) addedTwiceAtOnce) ! 0)) = [100, 100]"
    by (simp add: updateCondition_def updateOne_def sumNumWeight_def numOrZero_def Let_def
        addedTwiceAtOnce_categories addedTwiceAtOnce_activeTab)
  have a5: "totalWeight (categories
       (updateCondition ''1700000000000'' (SetWeight 100) addedTwiceAtOnce) ! 0) = 200"
    by (simp add: updateCondition_def updateOne_def sumNumWeight_def numOrZero_def Let_def
        addedTwiceAtOnce_categories addedTwiceAtOnce_activeTab)
  have b1: "cat_id (categories duplicateIdLoaded ! 0) = activeTab duplicateIdLoaded"
    by (simp add: duplicateIdLoaded_categories duplicateIdLoaded_activeTab)
  have b2: "map c_id (conditions (categories duplicateIdLoaded ! 0)) = [''7'', ''7'']"
    by (simp add: duplicateIdLoaded_categories)
  have b3: "map c_weight (conditions (categories duplicateIdLoaded ! 0)) = [30, 30]"
    by (simp add: duplicateIdLoaded_categories)
  have b4: "map c_weight (conditions (categories
       (updateCondition ''7'' (SetWeight 100) duplicateIdLoaded) ! 0)) = [100, 100]"
    by (simp add: updateCondition_def updateOne_def sumNumWeight_def numOrZero_def Let_def
        duplicateIdLoaded_categories duplicateIdLoaded_activeTab)
  have b5: "totalWeight (categories
       (updateCondition ''7'' (SetWeight 100) duplicateIdLoaded) ! 0) = 200"
    by (simp add: updateCondition_def updateOne_def sumNumWeight_def numOrZero_def Let_def
        duplicateIdLoaded_categories duplicateIdLoaded_activeTab)
  from a1 a2 a3 a4 a5 b1 b2 b3 b4 b5 show ?thesis by (intro conjI)
qed

theorem updateCondition_duplicate_ids_exceed_cap_witness:
  "totalWeight (categories (updateCondition ''1700000000000'' (SetWeight 100) addedTwiceAtOnce) ! 0) = 200 \<and>
   \<not> totalWeight (categories (updateCondition ''1700000000000'' (SetWeight 100) addedTwiceAtOnce) ! 0)
       \<le> 100 \<and>
   totalWeight (categories (updateCondition ''7'' (SetWeight 100) duplicateIdLoaded) ! 0) = 200 \<and>
   \<not> totalWeight (categories (updateCondition ''7'' (SetWeight 100) duplicateIdLoaded) ! 0) \<le> 100"
proof -
  from updateCondition_duplicate_ids_exceed_cap
  have a: "totalWeight (categories
       (updateCondition ''1700000000000'' (SetWeight 100) addedTwiceAtOnce) ! 0) = 200"
    and b: "totalWeight (categories (updateCondition ''7'' (SetWeight 100) duplicateIdLoaded) ! 0) = 200"
    by blast+
  then show ?thesis by simp
qed

section \<open>Saving through the REST call\<close>

lemma saveConfigurations_effects:
  "requests (saveConfigurations stringify res s) =
     requests s @ [saveConfigRequest (stringify (JArray (allConditions fieldOptions (categories s))))]"
  "categories (saveConfigurations stringify res s) = categories s"
  "activeTab (saveConfigurations stringify res s) = activeTab s"
  "localStorage (saveConfigurations stringify res s) = localStorage s"
  "loading (saveConfigurations stringify res s) = False"
  by (cases res; simp add: saveConfigurations_def Let_def)+

lemma saveConfigurations_toasts:
  "toasts (saveConfigurations stringify res s) =
     toasts s @ [if res = PostResponse True then saveSuccessToast else saveErrorToast]"
  by (cases res) (simp_all add: saveConfigurations_def Let_def)

lemma no_incomplete_iff:
  "(filter (\<lambda>cat. totalWeight cat \<noteq> 100) (filter (\<lambda>cat. length (conditions cat) > 0) cats) = []) =
   (\<forall>cat\<in>set cats. conditions cat \<noteq> [] \<longrightarrow> totalWeight cat = 100)"
  by (auto simp: filter_empty_conv)

lemma saveRules_complete:
  assumes "\<forall>cat\<in>set (categories s). conditions cat \<noteq> [] \<longrightarrow> totalWeight cat = 100"
  shows "saveRules stringify res s = saveConfigurations stringify res s"
  using assms no_incomplete_iff [of "categories s"] by (simp add: saveRules_def Let_def)

lemma saveRules_incomplete:
  assumes "\<exists>cat\<in>set (categories s). conditions cat \<noteq> [] \<and> totalWeight cat \<noteq> 100"
  shows "saveRules stringify res s = s\<lparr>toasts := toasts s @ [invalidConfigurationToast]\<rparr>"
proof -
  from assms have "filter (\<lambda>cat. totalWeight cat \<noteq> 100)
      (filter (\<lambda>cat. length (conditions cat) > 0) (categories s)) \<noteq> []"
    using no_incomplete_iff [of "categories s"] by blast
  then show ?thesis by (simp add: saveRules_def Let_def)
qed

text \<open>
  Claim C4. \<open>saveRules\<close> of the REST variant sends the POST (one request, through
  \<open>saveConfigurations\<close>) exactly when every category that has a condition has
  \<open>totalWeight\<close> 100. When a category with a condition has another total, no request is
  sent, the one toast added is the destructive "Invalid Configuration" toast, and the
  categories (with the tab, the loading flag and the local storage) stay as they are.
  A category without conditions is never looked at, whatever its total. The categories are
  unchanged in both cases.
\<close>

theorem saveRules_posts_iff_complete:
  "((\<forall>cat\<in>set (categories s). conditions cat \<noteq> [] \<longrightarrow> totalWeight cat = 100) \<longrightarrow>
      saveRules stringify res s = saveConfigurations stringify res s
      \<and> requests (saveRules stringify res s) =
          requests s @ [saveConfigRequest (stringify (JArray (allConditions fieldOptions (categories s))))])
   \<and> ((\<exists>cat\<in>set (categories s). conditions cat \<noteq> [] \<and> totalWeight cat \<noteq> 100) \<longrightarrow>
        requests (saveRules stringify res s) = requests s
        \<and> toasts (saveRules stringify res s) =
            toasts s @ [\<lparr>title = ''Invalid Configuration'',
                          description = ''All categories with conditions must have weights totaling 100%'',
                          variant = Some ''destructive''\<rparr>]
        \<and> activeTab (saveRules stringify res s) = activeTab s
        \<and> loading (saveRules stringify res s) = loading s
        \<and> localStorage (saveRules stringify res s) = localStorage s)
   \<and> categories (saveRules stringify res s) = categories s
   \<and> ((requests (saveRules stringify res s) \<noteq> requests s) =
        (\<forall>cat\<in>set (categories s). conditions cat \<noteq> [] \<longrightarrow> totalWeight cat = 100))"
proof (cases "\<forall>cat\<in>set (categories s). conditions cat \<noteq> [] \<longrightarrow> totalWeight cat = 100")
  case True
  then have eq: "saveRules stringify res s = saveConfigurations stringify res s"
    by (rule saveRules_complete)
  have "requests (saveRules stringify res s) =
          requests s @ [saveConfigRequest (stringify (JArray (allConditions fieldOptions (categories s))))]"
    by (simp only: eq saveConfigurations_effects)
  moreover have "categories (saveRules stringify res s) = categories s"
    by (simp only: eq saveConfigurations_effects)
  ultimately show ?thesis using True eq by auto
next
  case False
  then have ex: "\<exists>cat\<in>set (categories s). conditions cat \<noteq> [] \<and> totalWeight cat \<noteq> 100"
    by blast
  then have eq: "saveRules stringify res s = s\<lparr>toasts := toasts s @ [invalidConfigurationToast]\<rparr>"
    by (rule saveRules_incomplete)
  show ?thesis using False by (simp add: eq invalidConfigurationToast_def)
qed

lemma exampleLoaded_categories:
  "categories exampleLoaded = categories (fetchConfigurations (GetJson exampleResponse) initialState)"
  by (simp add: exampleLoaded_def)

theorem saveRules_posts_iff_complete_witness:
  "list_all (\<lambda>cat. conditions cat = [] \<or> totalWeight cat = 100) (categories exampleLoaded) \<and>
   saveRules plainJson (PostResponse True) exampleLoaded =
     saveConfigurations plainJson (PostResponse True) exampleLoaded \<and>
   requests (saveRules plainJson (PostResponse True) exampleLoaded) =
     requests exampleLoaded @
       [saveConfigRequest (plainJson (JArray (allConditions fieldOptions (categories exampleLoaded))))] \<and>
   list_ex (\<lambda>cat. conditions cat \<noteq> [] \<and> totalWeight cat \<noteq> 100) (categories initialStateLocal) \<and>
   requests (saveRules plainJson (PostResponse True) initialStateLocal) = requests initialStateLocal \<and>
   toasts (saveRules plainJson (PostResponse True) initialStateLocal) =
     toasts initialStateLocal @
       [\<lparr>title = ''Invalid Configuration'',
         description = ''All categories with conditions must have weights totaling 100%'',
         variant = Some ''destructive''\<rparr>]"
proof -
  have ok: "\<forall>cat\<in>set (categories exampleLoaded). conditions cat \<noteq> [] \<longrightarrow> totalWeight cat = 100"
    unfolding exampleLoaded_categories exampleResponse_fetched by (simp add: emptyCategory_def)
  have bad: "\<exists>cat\<in>set (categories initialStateLocal). conditions cat \<noteq> [] \<and> totalWeight cat \<noteq> 100"
    by (simp add: initial_defs)
  note t = saveRules_posts_iff_complete [of exampleLoaded plainJson "PostResponse True"]
  note u = saveRules_posts_iff_complete [of initialStateLocal plainJson "PostResponse True"]
  from t ok have c1: "saveRules plainJson (PostResponse True) exampleLoaded =
     saveConfigurations plainJson (PostResponse True) exampleLoaded"
    and c2: "requests (saveRules plainJson (PostResponse True) exampleLoaded) =
     requests exampleLoaded @
       [saveConfigRequest (plainJson (JArray (allConditions fieldOptions (categories exampleLoaded))))]"
    by blast+
  from u bad have c3: "requests (saveRules plainJson (PostResponse True) initialStateLocal) =
      requests initialStateLocal"
    and c4: "toasts (saveRules plainJson (PostResponse True) initialStateLocal) =
     toasts initialStateLocal @
       [\<lparr>title = ''Invalid Configuration'',
         description = ''All categories with conditions must have weights totaling 100%'',
         variant = Some ''destructive''\<rparr>]"
    by blast+
  from ok have ok': "list_all (\<lambda>cat. conditions cat = [] \<or> totalWeight cat = 100) (categories exampleLoaded)"
    by (auto simp: list_all_iff)
  from bad have bad': "list_ex (\<lambda>cat. conditions cat \<noteq> [] \<and> totalWeight cat \<noteq> 100) (categories initialStateLocal)"
    by (simp only: list_ex_iff)
  from ok' c1 c2 bad' c3 c4 show ?thesis by (intro conjI)
qed

lemma fieldOptions_ids_nonzero:
  "\<forall>f\<in>set (allFieldOptions fieldOptions). \<exists>m. fo_riskFieldId f = Some m \<and> m \<noteq> 0"
  by (simp add: allFieldOptions_def fieldOptions_def fieldOption_def)

lemma riskFieldIdOf_own:
  assumes "c_riskFieldId condition = Some n" and "n \<noteq> 0"
  shows "riskFieldIdOf fo condition = n"
  using assms by (simp add: riskFieldIdOf_def orElse_def)

lemma riskFieldIdOf_looked_up:
  assumes "c_riskFieldId condition = None \<or> c_riskFieldId condition = Some 0"
      and "f \<in> set (allFieldOptions fieldOptions)"
      and "fo_name f = c_field condition"
  shows "Some (riskFieldIdOf fieldOptions condition) = fo_riskFieldId f"
proof -
  have "findFieldInfo fieldOptions (fo_name f) = Some f"
    using fieldOptions_names_distinct assms(2) by (rule findFieldInfo_unique)
  then have found: "findFieldInfo fieldOptions (c_field condition) = Some f"
    by (simp only: assms(3))
  from fieldOptions_ids_nonzero assms(2) obtain m
    where m: "fo_riskFieldId f = Some m" "m \<noteq> 0" by blast
  from assms(1) found m show ?thesis
    by (auto simp: riskFieldIdOf_def orElse_def)
qed

lemma riskFieldIdOf_default:
  assumes "c_riskFieldId condition = None \<or> c_riskFieldId condition = Some 0"
      and "c_field condition \<notin> fo_name ` set (allFieldOptions fo)"
  shows "riskFieldIdOf fo condition = 1"
  using assms(1) findFieldInfo_unknown [OF assms(2)]
  by (auto simp: riskFieldIdOf_def orElse_def)

text \<open>
  Claim C5. \<open>saveConfigurations\<close> adds exactly one request, whatever the outcome: a POST
  to the SaveConfig URL with the JSON content type, whose body is \<open>JSON.stringify\<close> of the
  array that holds, for every category in order and every condition of it in order, the
  object with the four members \<open>RiskFieldId\<close>, \<open>Operator\<close>, \<open>Value\<close>,
  \<open>WeightPercentage\<close>, in this order. \<open>RiskFieldId\<close> is the condition's own
  \<open>riskFieldId\<close> when that is present and not 0 (JavaScript's \<open>||\<close> passes over 0);
  otherwise the id of the field named by the condition's \<open>field\<close> in the table, and 1 when
  the table has no field of that name. The request is made from the current categories
  alone: two states with the same categories send the same request. The categories are
  not changed.
\<close>

theorem saveConfigurations_posts_every_condition:
  "requests (saveConfigurations stringify res s) =
     requests s @
       [\<lparr>req_url = ''https://marstonx-defaulterrankingapp.azurewebsites.net/api/SaveConfig'',
         req_method = ''POST'',
         req_headers = [(''Content-Type'', ''application/json'')],
         req_body = Some (stringify (JArray (concat (map
           (\<lambda>category. map
              (\<lambda>condition. JObject [(''RiskFieldId'', JNumber (riskFieldIdOf fieldOptions condition)),
                                     (''Operator'', JString (c_operator condition)),
                                     (''Value'', JString (c_value condition)),
                                     (''WeightPercentage'', JNumber (c_weight condition))])
              (conditions category))
           (categories s)))))\<rparr>]
   \<and> (\<forall>n. c_riskFieldId c = Some n \<and> n \<noteq> 0 \<longrightarrow> riskFieldIdOf fieldOptions c = n)
   \<and> ((c_riskFieldId c = None \<or> c_riskFieldId c = Some 0) \<longrightarrow>
        (\<forall>f\<in>set (allFieldOptions fieldOptions).
            fo_name f = c_field c \<longrightarrow> Some (riskFieldIdOf fieldOptions c) = fo_riskFieldId f)
        \<and> (c_field c \<notin> fo_name ` set (allFieldOptions fieldOptions) \<longrightarrow>
             riskFieldIdOf fieldOptions c = 1))
   \<and> (categories s' = categories s \<longrightarrow>
        last (requests (saveConfigurations stringify res' s')) =
        last (requests (saveConfigurations stringify res s)))
   \<and> categories (saveConfigurations stringify res s) = categories s"
proof (intro conjI allI impI ballI)
  have "allConditions fieldOptions (categories s) =
        concat (map
           (\<lambda>category. map
              (\<lambda>condition. JObject [(''RiskFieldId'', JNumber (riskFieldIdOf fieldOptions condition)),
                                     (''Operator'', JString (c_operator condition)),
                                     (''Value'', JString (c_value condition)),
                                     (''WeightPercentage'', JNumber (c_weight condition))])
              (conditions category))
           (categories s))"
    by (simp add: allConditions_def toApiItem_def [abs_def])
  then show "requests (saveConfigurations stringify res s) =
     requests s @
       [\<lparr>req_url = ''https://marstonx-defaulterrankingapp.azurewebsites.net/api/SaveConfig'',
         req_method = ''POST'',
         req_headers = [(''Content-Type'', ''application/json'')],
         req_body = Some (stringify (JArray (concat (map
           (\<lambda>category. map
              (\<lambda>condition. JObject [(''RiskFieldId'', JNumber (riskFieldIdOf fieldOptions condition)),
                                     (''Operator'', JString (c_operator condition)),
                                     (''Value'', JString (c_value condition)),
                                     (''WeightPercentage'', JNumber (c_weight condition))])
              (conditions category))
           (categories s)))))\<rparr>]"
    by (simp add: saveConfigurations_effects saveConfigRequest_def)
next
  fix n assume "c_riskFieldId c = Some n \<and> n \<noteq> 0"
  then show "riskFieldIdOf fieldOptions c = n" by (simp add: riskFieldIdOf_own)
next
  fix f
  assume "c_riskFieldId c = None \<or> c_riskFieldId c = Some 0"
    and "f \<in> set (allFieldOptions fieldOptions)" and "fo_name f = c_field c"
  then show "Some (riskFieldIdOf fieldOptions c) = fo_riskFieldId f"
    by (rule riskFieldIdOf_looked_up)
next
  assume "c_riskFieldId c = None \<or> c_riskFieldId c = Some 0"
    and "c_field c \<notin> fo_name ` set (allFieldOptions fieldOptions)"
  then show "riskFieldIdOf fieldOptions c = 1" by (rule riskFieldIdOf_default)
next
  assume "categories s' = categories s"
  then show "last (requests (saveConfigurations stringify res' s')) =
        last (requests (saveConfigurations stringify res s))"
    by (simp add: saveConfigurations_effects)
next
  show "categories (saveConfigurations stringify res s) = categories s"
    by (simp add: saveConfigurations_effects)
qed

lemma exampleLoaded_body:
  "allConditions fieldOptions (categories exampleLoaded) =
     [JObject [(''RiskFieldId'', JNumber 1), (''Operator'', JString ''>''),
               (''Value'', JString ''5000''), (''WeightPercentage'', JNumber 60)],
      JObject [(''RiskFieldId'', JNumber 6), (''Operator'', JString ''<''),
               (''Value'', JString ''30''), (''WeightPercentage'', JNumber 40)],
      JObject [(''RiskFieldId'', JNumber 11), (''Operator'', JString ''=''),
               (''Value'', JString ''true''), (''WeightPercentage'', JNumber 100)]]"
  unfolding exampleLoaded_categories exampleResponse_fetched
  by (simp add: allConditions_def toApiItem_def riskFieldIdOf_def orElse_def emptyCategory_def)

theorem saveConfigurations_posts_every_condition_witness:
  "c_riskFieldId (hd (conditions (hd (categories exampleLoaded)))) = Some 1 \<and> (1::int) \<noteq> 0 \<and>
   riskFieldIdOf fieldOptions (hd (conditions (hd (categories exampleLoaded)))) = 1 \<and>
   (c_riskFieldId ((newCondition 5)\<lparr>c_field := ''DOB Match''\<rparr>) = None \<or>
    c_riskFieldId ((newCondition 5)\<lparr>c_field := ''DOB Match''\<rparr>) = Some 0) \<and>
   fieldOption ''DOB Match'' ''Boolean'' (Some 11) \<in> set (allFieldOptions fieldOptions) \<and>
   fo_name (fieldOption ''DOB Match'' ''Boolean'' (Some 11)) =
     c_field ((newCondition 5)\<lparr>c_field := ''DOB Match''\<rparr>) \<and>
   Some (riskFieldIdOf fieldOptions ((newCondition 5)\<lparr>c_field := ''DOB Match''\<rparr>)) =
     fo_riskFieldId (fieldOption ''DOB Match'' ''Boolean'' (Some 11)) \<and>
   (c_riskFieldId (newCondition 5) = None \<or> c_riskFieldId (newCondition 5) = Some 0) \<and>
   c_field (newCondition 5) \<notin> fo_name ` set (allFieldOptions fieldOptions) \<and>
   riskFieldIdOf fieldOptions (newCondition 5) = 1 \<and>
   categories (exampleLoaded\<lparr>loading := True\<rparr>) = categories exampleLoaded \<and>
   last (requests (saveConfigurations plainJson PostFailed (exampleLoaded\<lparr>loading := True\<rparr>))) =
     last (requests (saveConfigurations plainJson (PostResponse True) exampleLoaded)) \<and>
   map req_method (requests (saveConfigurations plainJson (PostResponse True) exampleLoaded)) =
     [''GET'', ''POST'']"
proof -
  note t1 = saveConfigurations_posts_every_condition
              [of plainJson "PostResponse True" exampleLoaded
                  "hd (conditions (hd (categories exampleLoaded)))"
                  "exampleLoaded\<lparr>loading := True\<rparr>" PostFailed]
  note t2 = saveConfigurations_posts_every_condition
              [of plainJson "PostResponse True" exampleLoaded
                  "(newCondition 5)\<lparr>c_field := ''DOB Match''\<rparr>" exampleLoaded PostFailed]
  note t3 = saveConfigurations_posts_every_condition
              [of plainJson "PostResponse True" exampleLoaded
                  "newCondition 5" exampleLoaded PostFailed]
  have a1: "c_riskFieldId (hd (conditions (hd (categories exampleLoaded)))) = Some 1"
    unfolding exampleLoaded_categories exampleResponse_fetched by simp
  have a2: "(1::int) \<noteq> 0" by simp
  from t1 a1 a2 have c1: "riskFieldIdOf fieldOptions (hd (conditions (hd (categories exampleLoaded)))) = 1"
    by blast
  have b1: "c_riskFieldId ((newCondition 5)\<lparr>c_field := ''DOB Match''\<rparr>) = None \<or>
            c_riskFieldId ((newCondition 5)\<lparr>c_field := ''DOB Match''\<rparr>) = Some 0"
    by (simp add: newCondition_def)
  have b2: "fieldOption ''DOB Match'' ''Boolean'' (Some 11) \<in> set (allFieldOptions fieldOptions)"
    by (simp add: allFieldOptions_def fieldOptions_def fieldOption_def)
  have b3: "fo_name (fieldOption ''DOB Match'' ''Boolean'' (Some 11)) =
            c_field ((newCondition 5)\<lparr>c_field := ''DOB Match''\<rparr>)"
    by (simp add: fieldOption_def)
  from t2 b1 b2 b3 have c2:
    "Some (riskFieldIdOf fieldOptions ((newCondition 5)\<lparr>c_field := ''DOB Match''\<rparr>)) =
     fo_riskFieldId (fieldOption ''DOB Match'' ''Boolean'' (Some 11))"
    by blast
  have d1: "c_riskFieldId (newCondition 5) = None \<or> c_riskFieldId (newCondition 5) = Some 0"
    by (simp add: newCondition_def)
  have d2: "c_field (newCondition 5) \<notin> fo_name ` set (allFieldOptions fieldOptions)"
    by (simp add: newCondition_def allFieldOptions_def fieldOptions_def fieldOption_def)
  from t3 d1 d2 have c3: "riskFieldIdOf fieldOptions (newCondition 5) = 1"
    by blast
  have e1: "categories (exampleLoaded\<lparr>loading := True\<rparr>) = categories exampleLoaded"
    by simp
  from t1 e1 have c4:
    "last (requests (saveConfigurations plainJson PostFailed (exampleLoaded\<lparr>loading := True\<rparr>))) =
     last (requests (saveConfigurations plainJson (PostResponse True) exampleLoaded))"
    by blast
  have "requests exampleLoaded = [getConfigRequest]"
    by (simp add: exampleLoaded_def fetchConfigurations_def initialState_def Let_def)
  with t1 have c5:
    "map req_method (requests (saveConfigurations plainJson (PostResponse True) exampleLoaded)) =
     [''GET'', ''POST'']"
    by (simp add: getConfigRequest_def)
  from a1 a2 c1 b1 b2 b3 c2 d1 d2 c3 e1 c4 c5 show ?thesis by (intro conjI)
qed

text \<open>
  Claim C7. When the GET of \<open>fetchConfigurations\<close> fails, and when the POST of
  \<open>saveConfigurations\<close> fails (whether \<open>fetch\<close> rejects or the response is not ok),
  the call adds exactly one toast, the destructive "Error" toast of that call, sends its one
  request and no second one, and leaves the categories as they were.
\<close>

theorem failed_call_toasts_once:
  "toasts (fetchConfigurations GetFailed s) =
     toasts s @ [\<lparr>title = ''Error'', description = ''Failed to load configurations'',
                  variant = Some ''destructive''\<rparr>]
   \<and> requests (fetchConfigurations GetFailed s) = requests s @ [getConfigRequest]
   \<and> categories (fetchConfigurations GetFailed s) = categories s
   \<and> (res = PostFailed \<or> res = PostResponse False \<longrightarrow>
        toasts (saveConfigurations stringify res s) =
          toasts s @ [\<lparr>title = ''Error'', description = ''Failed to save configurations'',
                       variant = Some ''destructive''\<rparr>]
        \<and> requests (saveConfigurations stringify res s) =
            requests s @ [saveConfigRequest (stringify (JArray (allConditions fieldOptions (categories s))))]
        \<and> categories (saveConfigurations stringify res s) = categories s)"
proof (intro conjI impI)
  show "toasts (fetchConfigurations GetFailed s) =
     toasts s @ [\<lparr>title = ''Error'', description = ''Failed to load configurations'',
                  variant = Some ''destructive''\<rparr>]"
    by (simp add: fetchConfigurations_def loadErrorToast_def Let_def)
  show "requests (fetchConfigurations GetFailed s) = requests s @ [getConfigRequest]"
    by (simp add: fetchConfigurations_def Let_def)
  show "categories (fetchConfigurations GetFailed s) = categories s"
    by (simp add: categories_fetchConfigurations)
next
  assume "res = PostFailed \<or> res = PostResponse False"
  then have "res \<noteq> PostResponse True" by auto
  then show "toasts (saveConfigurations stringify res s) =
          toasts s @ [\<lparr>title = ''Error'', description = ''Failed to save configurations'',
                       variant = Some ''destructive''\<rparr>]"
    by (simp add: saveConfigurations_toasts saveErrorToast_def)
next
  show "requests (saveConfigurations stringify res s) =
            requests s @ [saveConfigRequest (stringify (JArray (allConditions fieldOptions (categories s))))]"
    by (simp add: saveConfigurations_effects)
  show "categories (saveConfigurations stringify res s) = categories s"
    by (simp add: saveConfigurations_effects)
qed

theorem failed_call_toasts_once_witness:
  "(PostResponse False = PostFailed \<or> PostResponse False = PostResponse False) \<and>
   toasts (saveConfigurations plainJson (PostResponse False) exampleLoaded) =
     toasts exampleLoaded @ [\<lparr>title = ''Error'', description = ''Failed to save configurations'',
                              variant = Some ''destructive''\<rparr>] \<and>
   requests (saveConfigurations plainJson (PostResponse False) exampleLoaded) =
     requests exampleLoaded @
       [saveConfigRequest (plainJson (JArray (allConditions fieldOptions (categories exampleLoaded))))] \<and>
   categories (saveConfigurations plainJson (PostResponse False) exampleLoaded) = categories exampleLoaded \<and>
   (PostFailed = PostFailed \<or> PostFailed = PostResponse False) \<and>
   toasts (saveConfigurations plainJson PostFailed exampleLoaded) =
     toasts exampleLoaded @ [\<lparr>title = ''Error'', description = ''Failed to save configurations'',
                              variant = Some ''destructive''\<rparr>] \<and>
   toasts (fetchConfigurations GetFailed exampleLoaded) =
     toasts exampleLoaded @ [\<lparr>title = ''Error'', description = ''Failed to load configurations'',
                              variant = Some ''destructive''\<rparr>]"
proof -
  note t = failed_call_toasts_once [of exampleLoaded "PostResponse False" plainJson]
  note u = failed_call_toasts_once [of exampleLoaded PostFailed plainJson]
  have a: "PostResponse False = PostFailed \<or> PostResponse False = PostResponse False" by simp
  have b: "PostFailed = PostFailed \<or> PostFailed = PostResponse False" by simp
  from t a have c1: "toasts (saveConfigurations plainJson (PostResponse False) exampleLoaded) =
     toasts exampleLoaded @ [\<lparr>title = ''Error'', description = ''Failed to save configurations'',
                              variant = Some ''destructive''\<rparr>]"
    and c2: "requests (saveConfigurations plainJson (PostResponse False) exampleLoaded) =
     requests exampleLoaded @
       [saveConfigRequest (plainJson (JArray (allConditions fieldOptions (categories exampleLoaded))))]"
    and c3: "categories (saveConfigurations plainJson (PostResponse False) exampleLoaded) =
       categories exampleLoaded"
    by blast+
  from u b have c4: "toasts (saveConfigurations plainJson PostFailed exampleLoaded) =
     toasts exampleLoaded @ [\<lparr>title = ''Error'', description = ''Failed to save configurations'',
                              variant = Some ''destructive''\<rparr>]"
    by blast
  from t have c5: "toasts (fetchConfigurations GetFailed exampleLoaded) =
     toasts exampleLoaded @ [\<lparr>title = ''Error'', description = ''Failed to load configurations'',
                              variant = Some ''destructive''\<rparr>]"
    by blast
  from a c1 c2 c3 b c4 c5 show ?thesis by (intro conjI)
qed

section \<open>Saving to local storage\<close>

text \<open>
  Claim C8. For every state, \<open>saveRules\<close> of the local-storage variant stores under the
  key \<open>riskCategories\<close> the text \<open>JSON.stringify\<close> returns for the current list of
  categories: an array with, for every category in order, the object of its \<open>id\<close>,
  \<open>name\<close>, \<open>conditions\<close>, \<open>totalWeight\<close> and \<open>status\<close>, the conditions being an
  array with, for every condition in order, the object of its \<open>id\<close>, \<open>field\<close>,
  \<open>operator\<close>, \<open>value\<close>, \<open>weight\<close> and \<open>dataType\<close> (and of \<open>configId\<close> and
  \<open>riskFieldId\<close> where the condition has them). It leaves every other key of the storage
  as it is, adds the one toast "Rules Saved" (not a destructive one), and changes neither
  the categories nor the tab; it sends no request. Nothing in the state is tested first:
  the equations hold without any assumption on the weights or the status.
\<close>

theorem saveRulesLocal_stores_categories:
  "localStorage (saveRulesLocal stringify s) ''riskCategories'' =
     Some (stringify (JArray (map
       (\<lambda>cat. JObject
          [(''id'', JString (cat_id cat)),
           (''name'', JString (cat_name cat)),
           (''conditions'', JArray (map
              (\<lambda>c. JObject
                 ([(''id'', JString (c_id c)),
                   (''field'', JString (c_field c)),
                   (''operator'', JString (c_operator c)),
                   (''value'', JString (c_value c)),
                   (''weight'', JNumber (c_weight c)),
                   (''dataType'', JString (c_dataType c))]
                  @ (case c_configId c of None \<Rightarrow> [] | Some n \<Rightarrow> [(''configId'', JNumber n)])
                  @ (case c_riskFieldId c of None \<Rightarrow> [] | Some n \<Rightarrow> [(''riskFieldId'', JNumber n)])))
              (conditions cat))),
           (''totalWeight'', JNumber (totalWeight cat)),
           (''status'', JString (case status cat of incomplete \<Rightarrow> ''incomplete''
                                   | complete \<Rightarrow> ''complete''))])
       (categories s))))
   \<and> (\<forall>k. k = ''riskCategories'' \<or> localStorage (saveRulesLocal stringify s) k = localStorage s k)
   \<and> toasts (saveRulesLocal stringify s) =
       toasts s @
         [\<lparr>title = ''Rules Saved'',
           description = ''Scoring Configuration has been saved successfully. Dashboard will reflect these changes.'',
           variant = None\<rparr>]
   \<and> categories (saveRulesLocal stringify s) = categories s
   \<and> activeTab (saveRulesLocal stringify s) = activeTab s
   \<and> requests (saveRulesLocal stringify s) = requests s"
proof -
  have cond: "conditionJson =
        (\<lambda>c. JObject
                 ([(''id'', JString (c_id c)),
                   (''field'', JString (c_field c)),
                   (''operator'', JString (c_operator c)),
                   (''value'', JString (c_value c)),
                   (''weight'', JNumber (c_weight c)),
                   (''dataType'', JString (c_dataType c))]
                  @ (case c_configId c of None \<Rightarrow> [] | Some n \<Rightarrow> [(''configId'', JNumber n)])
                  @ (case c_riskFieldId c of None \<Rightarrow> [] | Some n \<Rightarrow> [(''riskFieldId'', JNumber n)])))"
    by (rule ext) (simp add: conditionJson_def optionalMember_def)
  have cat: "categoryJson =
        (\<lambda>cat. JObject
          [(''id'', JString (cat_id cat)),
           (''name'', JString (cat_name cat)),
           (''conditions'', JArray (map conditionJson (conditions cat))),
           (''totalWeight'', JNumber (totalWeight cat)),
           (''status'', JString (case status cat of incomplete \<Rightarrow> ''incomplete''
                                   | complete \<Rightarrow> ''complete''))])"
    by (rule ext) (simp add: categoryJson_def statusName_def)
  show ?thesis
    unfolding saveRulesLocal_def Let_def cat cond
    by (simp add: rulesSavedToast_def)
qed

theorem saveRulesLocal_stores_categories_witness:
  "localStorage (saveRulesLocal plainJson initialStateLocal) ''riskCategories'' =
     Some (plainJson (JArray
       [JObject
          [(''id'', JString ''financial''),
           (''name'', JString ''Financial & Credit''),
           (''conditions'', JArray
              [JObject [(''id'', JString ''1''), (''field'', JString ''Loan Amount''),
                        (''operator'', JString ''>''), (''value'', JString ''5000''),
                        (''weight'', JNumber 40), (''dataType'', JString ''Number'')],
               JObject [(''id'', JString ''2''), (''field'', JString ''Outstanding Balance''),
                        (''operator'', JString ''=''), (''value'', JString ''1500''),
                        (''weight'', JNumber 15), (''dataType'', JString ''Number'')]]),
           (''totalWeight'', JNumber 55),
           (''status'', JString ''incomplete'')],
        JObject
          [(''id'', JString ''identity''), (''name'', JString ''Identity & Verification''),
           (''conditions'', JArray []), (''totalWeight'', JNumber 0),
           (''status'', JString ''incomplete'')],
        JObject
          [(''id'', JString ''property''), (''name'', JString ''Property & Stability''),
           (''conditions'', JArray []), (''totalWeight'', JNumber 0),
           (''status'', JString ''incomplete'')],
        JObject
          [(''id'', JString ''contactability''), (''name'', JString ''Contactability & Behaviour''),
           (''conditions'', JArray []), (''totalWeight'', JNumber 0),
           (''status'', JString ''incomplete'')],
        JObject
          [(''id'', JString ''risk''), (''name'', JString ''Risk Factors''),
           (''conditions'', JArray []), (''totalWeight'', JNumber 0),
           (''status'', JString ''incomplete'')]])) \<and>
   categories (saveRulesLocal plainJson initialStateLocal) = categories initialStateLocal \<and>
   localStorage initialStateLocal ''riskCategories'' = None"
proof -
  note t = saveRulesLocal_stores_categories [of plainJson initialStateLocal]
  from t have c1:
    "localStorage (saveRulesLocal plainJson initialStateLocal) ''riskCategories'' =
     Some (plainJson (JArray (map
       (\<lambda>cat. JObject
          [(''id'', JString (cat_id cat)),
           (''name'', JString (cat_name cat)),
           (''conditions'', JArray (map
              (\<lambda>c. JObject
                 ([(''id'', JString (c_id c)),
                   (''field'', JString (c_field c)),
                   (''operator'', JString (c_operator c)),
                   (''value'', JString (c_value c)),
                   (''weight'', JNumber (c_weight c)),
                   (''dataType'', JString (c_dataType c))]
                  @ (case c_configId c of None \<Rightarrow> [] | Some n \<Rightarrow> [(''configId'', JNumber n)])
                  @ (case c_riskFieldId c of None \<Rightarrow> [] | Some n \<Rightarrow> [(''riskFieldId'', JNumber n)])))
              (conditions cat))),
           (''totalWeight'', JNumber (totalWeight cat)),
           (''status'', JString (case status cat of incomplete \<Rightarrow> ''incomplete''
                                   | complete \<Rightarrow> ''complete''))])
       (categories initialStateLocal))))"
    and c2: "categories (saveRulesLocal plainJson initialStateLocal) = categories initialStateLocal"
    by blast+
  have cats: "categories initialStateLocal = initialCategoriesLocal"
    by (simp add: initialStateLocal_def)
  have c3: "localStorage initialStateLocal ''riskCategories'' = None"
    by (simp add: initialStateLocal_def)
  have c1': "localStorage (saveRulesLocal plainJson initialStateLocal) ''riskCategories'' =
     Some (plainJson (JArray
       [JObject
          [(''id'', JString ''financial''),
           (''name'', JString ''Financial & Credit''),
           (''conditions'', JArray
              [JObject [(''id'', JString ''1''), (''field'', JString ''Loan Amount''),
                        (''operator'', JString ''>''), (''value'', JString ''5000''),
                        (''weight'', JNumber 40), (''dataType'', JString ''Number'')],
               JObject [(''id'', JString ''2''), (''field'', JString ''Outstanding Balance''),
                        (''operator'', JString ''=''), (''value'', JString ''1500''),
                        (''weight'', JNumber 15), (''dataType'', JString ''Number'')]]),
           (''totalWeight'', JNumber 55),
           (''status'', JString ''incomplete'')],
        JObject
          [(''id'', JString ''identity''), (''name'', JString ''Identity & Verification''),
           (''conditions'', JArray []), (''totalWeight'', JNumber 0),
           (''status'', JString ''incomplete'')],
        JObject
          [(''id'', JString ''property''), (''name'', JString ''Property & Stability''),
           (''conditions'', JArray []), (''totalWeight'', JNumber 0),
           (''status'', JString ''incomplete'')],
        JObject
          [(''id'', JString ''contactability''), (''name'', JString ''Contactability & Behaviour''),
           (''conditions'', JArray []), (''totalWeight'', JNumber 0),
           (''status'', JString ''incomplete'')],
        JObject
          [(''id'', JString ''risk''), (''name'', JString ''Risk Factors''),
           (''conditions'', JArray []), (''totalWeight'', JNumber 0),
           (''status'', JString ''incomplete'')]]))"
    unfolding c1 cats by (simp add: initialCategoriesLocal_def emptyCategory_def)
  from c1' c2 c3 show ?thesis by (intro conjI)
qed

section \<open>getAvailableFields\<close>





text \<open>
  The ids the component holds never change: every operation keeps the ids of the
  categories, so in every state reached from either initial state they are the five ids of
  the literal, each with an entry in both tables.
\<close>

lemma perform_keeps_ids: "map cat_id (categories (perform op s)) = map cat_id (categories s)"
proof (cases op)
  case (SetActiveTab tab)
  then show ?thesis by simp
next
  case (AddCondition now)
  then show ?thesis by (simp add: categories_addCondition comp_def)
next
  case (RemoveCondition conditionId)
  then show ?thesis by (simp add: removeCondition_def comp_def)
next
  case (UpdateCondition conditionId fv)
  then show ?thesis by (simp add: updateCondition_def Let_def comp_def)
next
  case (FetchConfigurations res)
  then show ?thesis
    by (cases res) (simp_all add: categories_fetchConfigurations transformCategory_def Let_def comp_def)
qed

lemma run_keeps_ids: "map cat_id (categories (run ops s)) = map cat_id (categories s)"
  by (induction ops arbitrary: s) (simp_all add: perform_keeps_ids)

lemma held_ids:
  assumes "s0 = initialState \<or> s0 = initialStateLocal"
  shows "map cat_id (categories (run ops s0)) =
           [''financial'', ''identity'', ''property'', ''contactability'', ''risk'']"
  using assms by (auto simp: run_keeps_ids initial_defs)





end
